(* ===== verification/Prelude.thy ===== *)
theory Prelude
  imports Main "HOL-Library.Sublist"
begin

text \<open>
  Shared vocabulary of the user-directory development.  JavaScript strings are
  \<open>char\<close> lists (\<open>js_string\<close>); record identities are natural numbers
  (\<open>user_id\<close>, the \<open>id\<close> field of the fetched JSON).  JavaScript's truthiness of
  the string and \<open>null\<close> values the sources test with \<open>&&\<close> and \<open>? :\<close> is
  written out as \<open>truthy\<close> and \<open>truthy_opt\<close>.  The collections
  \<open>js_simps\<close> and \<open>view_simps\<close> gather the evaluation rules of the built-ins
  and of the rendered views, so that component proofs say \<open>simp add: view_simps\<close>.
  JavaScript code that may throw is modelled in the sum type \<open>'e + 'a\<close>
  (\<open>Inl\<close> the exception): \<open>bindE\<close> sequences two computations and stops at
  the first exception, \<open>mapE\<close> and \<open>filterE\<close> are \<open>Array.prototype.map\<close>
  and \<open>filter\<close> with a callback that may throw, visiting the elements in order.
  The list lemmas at the end are shared by the derivation of option lists and the
  filter pipeline; the \<open>mapE\<close>/\<open>filterE\<close> lemmas relate them to \<open>map\<close>
  and \<open>filter\<close> when no callback throws, and say when a result exists.
\<close>

named_theorems js_simps "evaluation rules of the JavaScript built-ins the sources call"
named_theorems view_simps "equations that unfold the rendered views of the components"

type_synonym js_string = string
type_synonym user_id = nat

definition truthy :: "js_string \<Rightarrow> bool" where
  "truthy s \<longleftrightarrow> s \<noteq> []"

definition truthy_opt :: "js_string option \<Rightarrow> bool" where
  "truthy_opt v = (case v of None \<Rightarrow> False | Some s \<Rightarrow> truthy s)"

definition bindE :: "'e + 'a \<Rightarrow> ('a \<Rightarrow> 'e + 'b) \<Rightarrow> 'e + 'b" where
  "bindE x f = (case x of Inl e \<Rightarrow> Inl e | Inr a \<Rightarrow> f a)"

fun mapE :: "('a \<Rightarrow> 'e + 'b) \<Rightarrow> 'a list \<Rightarrow> 'e + 'b list" where
  "mapE f [] = Inr []"
| "mapE f (x # xs) = bindE (f x) (\<lambda>y. bindE (mapE f xs) (\<lambda>ys. Inr (y # ys)))"

fun filterE :: "('a \<Rightarrow> 'e + bool) \<Rightarrow> 'a list \<Rightarrow> 'e + 'a list" where
  "filterE p [] = Inr []"
| "filterE p (x # xs) = bindE (p x) (\<lambda>b. bindE (filterE p xs) (\<lambda>ys. Inr (if b then x # ys else ys)))"

lemma truthy_simps [simp]:
  "truthy [] = False" "truthy (c # cs) = True"
  by (simp_all add: truthy_def)

lemma truthy_opt_simps [simp]:
  "truthy_opt None = False" "truthy_opt (Some s) = truthy s"
  by (simp_all add: truthy_opt_def)

lemma distinct_count_list_one:
  "distinct xs \<Longrightarrow> x \<in> set xs \<Longrightarrow> count_list xs x = 1"
  by (induction xs) auto

lemma remdups_snoc: "remdups (ys @ [x]) = remdups [y \<leftarrow> ys. y \<noteq> x] @ [x]"
  by (induction ys) auto

lemma sublist_at:
  "sublist p s \<longleftrightarrow> (\<exists>k. k + length p \<le> length s \<and> take (length p) (drop k s) = p)"
proof
  assume "sublist p s"
  then obtain ps ss where s: "s = ps @ p @ ss" by (auto simp: sublist_def)
  then show "\<exists>k. k + length p \<le> length s \<and> take (length p) (drop k s) = p"
    by (intro exI [of _ "length ps"]) simp
next
  assume "\<exists>k. k + length p \<le> length s \<and> take (length p) (drop k s) = p"
  then obtain k where k: "take (length p) (drop k s) = p" by blast
  have "s = take k s @ take (length p) (drop k s) @ drop (length p) (drop k s)"
    by (simp only: append_take_drop_id)
  with k show "sublist p s" unfolding sublist_def by metis
qed

lemma subseq_filter_mono: "(\<And>x. P x \<Longrightarrow> Q x) \<Longrightarrow> subseq (filter P xs) (filter Q xs)"
  by (induction xs) auto

lemma bindE_simps [simp]: "bindE (Inl e) f = Inl e" "bindE (Inr a) f = f a"
  by (simp_all add: bindE_def)

lemma mapE_map: "(\<And>x. x \<in> set xs \<Longrightarrow> f x = Inr (g x)) \<Longrightarrow> mapE f xs = Inr (map g xs)"
  by (induction xs) auto

lemma filterE_filter: "(\<And>x. x \<in> set xs \<Longrightarrow> p x = Inr (P x)) \<Longrightarrow> filterE p xs = Inr (filter P xs)"
  by (induction xs) auto

lemma mapE_map_Inr: "(\<And>x. x \<in> set xs \<Longrightarrow> f (h x) = Inr (g x)) \<Longrightarrow> mapE f (map h xs) = Inr (map g xs)"
  by (induction xs) auto

lemma filterE_map_Inr:
  "(\<And>x. x \<in> set xs \<Longrightarrow> p (h x) = Inr (P x)) \<Longrightarrow> filterE p (map h xs) = Inr (map h (filter P xs))"
  by (induction xs) auto

lemma mapE_Inr_ex: "(\<And>x. x \<in> set xs \<Longrightarrow> \<exists>y. f x = Inr y) \<Longrightarrow> \<exists>ys. mapE f xs = Inr ys"
  by (induction xs) (fastforce simp: bindE_def)+

lemma filterE_Inr_ex: "(\<And>x. x \<in> set xs \<Longrightarrow> \<exists>b. p x = Inr b) \<Longrightarrow> \<exists>ys. filterE p xs = Inr ys"
  by (induction xs) (fastforce simp: bindE_def)+

lemma filterE_Inr_set: "filterE p xs = Inr ys \<Longrightarrow> set ys \<subseteq> set xs"
  by (induction xs arbitrary: ys) (auto simp: bindE_def split: sum.splits if_splits)

lemma mapE_Inl_ex: "x \<in> set xs \<Longrightarrow> f x = Inl e \<Longrightarrow> \<exists>e'. mapE f xs = Inl e'"
  by (induction xs) (auto simp: bindE_def split: sum.splits)

lemma mapE_Inr_all: "mapE f xs = Inr ys \<Longrightarrow> x \<in> set xs \<Longrightarrow> \<exists>y. f x = Inr y"
  by (induction xs arbitrary: ys) (auto simp: bindE_def split: sum.splits)

end
