(* ===== verification/JS_Builtins.thy ===== *)
theory JS_Builtins
  imports Prelude
begin

text \<open>
  The three JavaScript built-ins through which \<open>App\<close> (src/src/app.jsx) computes:
  \<open>String.prototype.toLowerCase\<close> (\<open>to_lower\<close>, per character \<open>lower_char\<close>),
  \<open>String.prototype.includes\<close> (\<open>js_includes\<close>, the position-by-position search of
  the ECMAScript algorithm, with \<open>starts_with\<close> the comparison at one position),
  and \<open>Array.from(new Set(xs))\<close> (\<open>set_from_list\<close>: a \<open>Set\<close> keeps insertion
  order and ignores a value already present, \<open>set_add\<close>).  A character is one
  code unit below U+0100 (Latin-1): \<open>lower_char\<close> maps the capitals A--Z and
  U+00C0--U+00DE except U+00D7 to their small letters, 32 code points up, and leaves every
  other character alone, which is exactly what ECMAScript's \<open>toLowerCase\<close> does on
  these code points.
  The lemmas show \<open>js_includes\<close> equal to the library's contiguous-sublist relation
  and to the ECMAScript search by position, \<open>to_lower\<close> length-preserving and
  idempotent, and \<open>set_from_list\<close> equal to the reference
  \<open>rev (remdups (rev xs))\<close>, hence duplicate-free with the same elements, and
  obeying the insertion-order law for appended lists.  \<open>js_simps\<close> evaluates
  \<open>to_lower\<close> on string literals.
\<close>

definition lower_char :: "char \<Rightarrow> char" where
  "lower_char c =
     (let n = (of_char c :: nat)
      in if (65 \<le> n \<and> n \<le> 90) \<or> (192 \<le> n \<and> n \<le> 222 \<and> n \<noteq> 215) then char_of (n + 32) else c)"

definition to_lower :: "js_string \<Rightarrow> js_string" where
  "to_lower s = map lower_char s"

fun starts_with :: "js_string \<Rightarrow> js_string \<Rightarrow> bool" where
  "starts_with s [] = True"
| "starts_with [] (c # cs) = False"
| "starts_with (d # ds) (c # cs) = (d = c \<and> starts_with ds cs)"

fun js_includes :: "js_string \<Rightarrow> js_string \<Rightarrow> bool" where
  "js_includes [] p = (p = [])"
| "js_includes (c # cs) p = (starts_with (c # cs) p \<or> js_includes cs p)"

definition set_add :: "'a list \<Rightarrow> 'a \<Rightarrow> 'a list" where
  "set_add s x = (if x \<in> set s then s else s @ [x])"

definition set_from_list :: "'a list \<Rightarrow> 'a list" where
  "set_from_list xs = foldl set_add [] xs"

lemma char_of_eq [js_simps]: "(char_of (n::nat) = c) = (n mod 256 = of_char c)"
  and eq_char_of [js_simps]: "(c = char_of (n::nat)) = (of_char c = n mod 256)"
  by (metis of_char_eq_iff of_char_of)+

declare to_lower_def [js_simps] lower_char_def [js_simps]

lemma starts_with_prefix [simp]: "starts_with s p \<longleftrightarrow> prefix p s"
  by (induction s p rule: starts_with.induct) auto

lemma js_includes_sublist: "js_includes s p \<longleftrightarrow> sublist p s"
  by (induction s) (auto simp: sublist_Cons_right)

lemma js_includes_Nil [simp]: "js_includes s []"
  by (simp add: js_includes_sublist)

lemma lower_char_idem [simp]: "lower_char (lower_char c) = lower_char c"
  by (simp add: lower_char_def Let_def)

lemma length_to_lower [simp]: "length (to_lower s) = length s"
  by (simp add: to_lower_def)

lemma to_lower_idem [simp]: "to_lower (to_lower s) = to_lower s"
  by (simp add: to_lower_def)

lemma set_add_present: "x \<in> set s \<Longrightarrow> set_add s x = s"
  and set_add_absent: "x \<notin> set s \<Longrightarrow> set_add s x = s @ [x]"
  by (simp_all add: set_add_def)

lemma foldl_set_add: "foldl set_add acc xs = acc @ rev (remdups (rev [x \<leftarrow> xs. x \<notin> set acc]))"
proof (induction xs arbitrary: acc)
  case Nil
  then show ?case by simp
next
  case (Cons x xs)
  show ?case
  proof (cases "x \<in> set acc")
    case True
    then show ?thesis by (simp add: Cons.IH set_add_present)
  next
    case False
    then have "foldl set_add acc (x # xs) =
        acc @ [x] @ rev (remdups (rev [y \<leftarrow> xs. y \<notin> set acc \<and> y \<noteq> x]))"
      by (simp add: Cons.IH set_add_absent conj_commute)
    with False show ?thesis
      by (simp add: remdups_snoc rev_filter conj_commute)
  qed
qed

lemma set_from_list_remdups: "set_from_list xs = rev (remdups (rev xs))"
  using foldl_set_add [of "[]" xs] by (simp add: set_from_list_def)

lemma set_set_from_list [simp]: "set (set_from_list xs) = set xs"
  by (simp add: set_from_list_remdups)

lemma distinct_set_from_list [simp]: "distinct (set_from_list xs)"
  by (simp add: set_from_list_remdups)


text \<open>A JavaScript \<open>Set\<close> built from \<open>xs @ ys\<close> lists the values of
  \<open>xs\<close> first and then, in their order, the values of \<open>ys\<close> not already present.\<close>

theorem set_from_list_append:
  "set_from_list (xs @ ys) = set_from_list xs @ [y \<leftarrow> set_from_list ys. y \<notin> set xs]"
proof -
  have "set_from_list (xs @ ys) = foldl set_add (set_from_list xs) ys"
    by (simp add: set_from_list_def)
  also have "\<dots> = set_from_list xs @ rev (remdups (rev [y \<leftarrow> ys. y \<notin> set xs]))"
    by (simp add: foldl_set_add)
  also have "rev (remdups (rev [y \<leftarrow> ys. y \<notin> set xs])) = [y \<leftarrow> set_from_list ys. y \<notin> set xs]"
    by (simp add: set_from_list_remdups rev_filter remdups_filter)
  finally show ?thesis .
qed

end
