(* ===== verification/Users.thy ===== *)
theory Users
  imports Prelude
begin

text \<open>
  The user record as the sources read it from the fetched JSON: \<open>App\<close> reads
  \<open>name\<close>, \<open>username\<close>, \<open>address.city\<close>, \<open>company.name\<close> and \<open>id\<close>
  (src/src/app.jsx), \<open>UserCard\<close> additionally \<open>email\<close>, \<open>phone\<close>,
  \<open>website\<close>, \<open>address.street\<close> and \<open>address.zipcode\<close>
  (src/src/components/UserCard.jsx).  The nested objects are records of their own.
  JSON fields the sources never read are not modelled.  The JavaScript field \<open>id\<close>
  is \<open>uid\<close> here, and \<open>company.name\<close> is \<open>company_name\<close>, since HOL
  record fields share one name space.  \<open>ids_distinct\<close> is the uniqueness of
  identities that the spec assumes of the fixture.  \<open>mk_user\<close> builds sample
  records (fixed contact fields) for the concrete scenarios of the later theories.
\<close>

record address =
  street :: js_string
  city :: js_string
  zipcode :: js_string

record company =
  company_name :: js_string

record user =
  uid :: user_id
  name :: js_string
  username :: js_string
  email :: js_string
  address :: address
  company :: company
  phone :: js_string
  website :: js_string

definition user_city :: "user \<Rightarrow> js_string" where
  "user_city u = city (address u)"

definition user_company :: "user \<Rightarrow> js_string" where
  "user_company u = company_name (company u)"

definition ids_distinct :: "user list \<Rightarrow> bool" where
  "ids_distinct us \<longleftrightarrow> distinct (map uid us)"

definition mk_user ::
  "user_id \<Rightarrow> js_string \<Rightarrow> js_string \<Rightarrow> js_string \<Rightarrow> js_string \<Rightarrow> user" where
  "mk_user i n un c co =
     \<lparr>uid = i, name = n, username = un, email = un @ ''@example.org'',
      address = \<lparr>street = ''Main St'', city = c, zipcode = ''00000''\<rparr>,
      company = \<lparr>company_name = co\<rparr>, phone = ''555'', website = ''example.org''\<rparr>"

lemma user_city_mk_user [simp]: "user_city (mk_user i n un c co) = c"
  and user_company_mk_user [simp]: "user_company (mk_user i n un c co) = co"
  and uid_mk_user [simp]: "uid (mk_user i n un c co) = i"
  and name_mk_user [simp]: "name (mk_user i n un c co) = n"
  and username_mk_user [simp]: "username (mk_user i n un c co) = un"
  by (simp_all add: mk_user_def user_city_def user_company_def)

end
