(* ===== verification/Directory.thy ===== *)
theory Directory
  imports JS_Builtins Users
begin

text \<open>
  The \<open>App\<close> component of src/src/app.jsx.  Its seven \<open>useState\<close> hooks are the
  fields of \<open>app_state\<close> (\<open>app_init\<close> holds their initial values, lines 5--11).
  The promise chain of the effect (lines 13--28) is \<open>fetch_chain\<close>, from the outcome
  of \<open>fetch\<close> to either the message the \<open>catch\<close> stores or the parsed data; its two
  callbacks are \<open>on_data\<close> and \<open>on_error\<close>, composed in \<open>settle_fetch\<close>.  The
  same callbacks as the ordered lists of their \<open>setState\<close> calls are
  \<open>data_updates\<close> and \<open>error_updates\<close> (\<open>settle_updates\<close>), and
  \<open>apply_updates\<close> lists the state after each call, the states an unbatched
  render would show.  The
  derived option lists of lines 31--32 are \<open>cities\<close> and \<open>companies\<close>; the
  three chained \<open>filter\<close> calls of lines 35--40 are \<open>filter_pipeline\<close> over the
  predicates \<open>matches_search\<close>, \<open>matches_city\<close>, \<open>matches_company\<close>.  The
  four input handlers of the header are \<open>app_handle\<close>, and the returned element tree
  is \<open>render_app\<close>: the root class, the header controls, the loading and error
  paragraphs and the main grid of keyed \<open>UserCard\<close> elements or the no-match text.
  \<open>user_matches\<close> is the spec's matching criterion, stated with the library's
  \<open>sublist\<close>, against which the pipeline is proved.  The lemmas cover the pipeline
  (refinement, order, idempotence, narrowing, no criteria), the case-insensitive search,
  the option lists, and the order of the callbacks' updates.
\<close>

record app_state =
  users :: "user list"
  loading :: bool
  error :: "js_string option"
  search :: js_string
  cityFilter :: js_string
  companyFilter :: js_string
  darkMode :: bool

datatype json_body = JsonUsers "user list" | JsonInvalid js_string

record response =
  ok :: bool
  body :: json_body

datatype fetch_outcome = Resolved response | Rejected js_string

datatype app_event =
    SearchInput js_string
  | CitySelect js_string
  | CompanySelect js_string
  | DarkModeClick

datatype select_option = SelectOption (opt_value: js_string) (opt_label: js_string)

datatype card_elem = CardElem (elem_key: user_id) (elem_user: user)

datatype main_view = MainView (grid: "card_elem list") (no_match: bool)

record header_view =
  search_value :: js_string
  city_value :: js_string
  city_options :: "select_option list"
  company_value :: js_string
  company_options :: "select_option list"
  toggle_text :: js_string

record app_view =
  dark_class :: bool
  header :: header_view
  loading_text :: "js_string option"
  error_text :: "js_string option"
  main :: "main_view option"

definition app_init :: app_state where
  "app_init =
     \<lparr>users = [], loading = True, error = None, search = [], cityFilter = [],
      companyFilter = [], darkMode = False\<rparr>"

definition fetch_chain :: "fetch_outcome \<Rightarrow> js_string + user list" where
  "fetch_chain r =
     (case r of
        Rejected m \<Rightarrow> Inl m
      | Resolved res \<Rightarrow>
          (if \<not> ok res then Inl ''Failed to fetch''
           else (case body res of JsonInvalid m \<Rightarrow> Inl m | JsonUsers d \<Rightarrow> Inr d)))"

definition on_data :: "user list \<Rightarrow> app_state \<Rightarrow> app_state" where
  "on_data d s = s\<lparr>users := d, loading := False\<rparr>"

definition on_error :: "js_string \<Rightarrow> app_state \<Rightarrow> app_state" where
  "on_error m s = s\<lparr>error := Some m, loading := False\<rparr>"

definition settle_fetch :: "fetch_outcome \<Rightarrow> app_state \<Rightarrow> app_state" where
  "settle_fetch r s = (case fetch_chain r of Inl m \<Rightarrow> on_error m s | Inr d \<Rightarrow> on_data d s)"

definition data_updates :: "user list \<Rightarrow> (app_state \<Rightarrow> app_state) list" where
  "data_updates d = [\<lambda>s. s\<lparr>users := d\<rparr>, \<lambda>s. s\<lparr>loading := False\<rparr>]"

definition error_updates :: "js_string \<Rightarrow> (app_state \<Rightarrow> app_state) list" where
  "error_updates m = [\<lambda>s. s\<lparr>error := Some m\<rparr>, \<lambda>s. s\<lparr>loading := False\<rparr>]"

definition settle_updates :: "fetch_outcome \<Rightarrow> (app_state \<Rightarrow> app_state) list" where
  "settle_updates r = (case fetch_chain r of Inl m \<Rightarrow> error_updates m | Inr d \<Rightarrow> data_updates d)"

fun apply_updates :: "(app_state \<Rightarrow> app_state) list \<Rightarrow> app_state \<Rightarrow> app_state list" where
  "apply_updates [] s = []"
| "apply_updates (f # fs) s = f s # apply_updates fs (f s)"

definition cities :: "user list \<Rightarrow> js_string list" where
  "cities us = set_from_list (map user_city us)"

definition companies :: "user list \<Rightarrow> js_string list" where
  "companies us = set_from_list (map user_company us)"

definition matches_search :: "js_string \<Rightarrow> user \<Rightarrow> bool" where
  "matches_search q u \<longleftrightarrow>
     js_includes (to_lower (name u)) (to_lower q) \<or> js_includes (to_lower (username u)) (to_lower q)"

definition matches_city :: "js_string \<Rightarrow> user \<Rightarrow> bool" where
  "matches_city c u \<longleftrightarrow> (if truthy c then user_city u = c else True)"

definition matches_company :: "js_string \<Rightarrow> user \<Rightarrow> bool" where
  "matches_company c u \<longleftrightarrow> (if truthy c then user_company u = c else True)"

definition filter_pipeline :: "js_string \<Rightarrow> js_string \<Rightarrow> js_string \<Rightarrow> user list \<Rightarrow> user list" where
  "filter_pipeline q c co us =
     filter (matches_company co) (filter (matches_city c) (filter (matches_search q) us))"

definition filtered_users :: "app_state \<Rightarrow> user list" where
  "filtered_users s = filter_pipeline (search s) (cityFilter s) (companyFilter s) (users s)"

fun app_handle :: "app_event \<Rightarrow> app_state \<Rightarrow> app_state" where
  "app_handle (SearchInput v) s = s\<lparr>search := v\<rparr>"
| "app_handle (CitySelect v) s = s\<lparr>cityFilter := v\<rparr>"
| "app_handle (CompanySelect v) s = s\<lparr>companyFilter := v\<rparr>"
| "app_handle DarkModeClick s = s\<lparr>darkMode := \<not> darkMode s\<rparr>"

definition render_app :: "app_state \<Rightarrow> app_view" where
  "render_app s =
     (let fs = filtered_users s in
      \<lparr>dark_class = darkMode s,
       header =
         \<lparr>search_value = search s,
          city_value = cityFilter s,
          city_options = SelectOption [] ''All Cities'' # map (\<lambda>c. SelectOption c c) (cities (users s)),
          company_value = companyFilter s,
          company_options =
            SelectOption [] ''All Companies'' # map (\<lambda>c. SelectOption c c) (companies (users s)),
          toggle_text = (if darkMode s then ''Light Mode'' else ''Dark Mode'')\<rparr>,
       loading_text = (if loading s then Some ''Loading users...'' else None),
       error_text =
         (if truthy_opt (error s) then Some (''Error: '' @ the (error s) @ '' '') else None),
       main =
         (if \<not> loading s \<and> \<not> truthy_opt (error s)
          then Some (MainView (map (\<lambda>u. CardElem (uid u) u) fs) (length fs = 0))
          else None)\<rparr>)"

definition user_matches :: "js_string \<Rightarrow> js_string \<Rightarrow> js_string \<Rightarrow> user \<Rightarrow> bool" where
  "user_matches q c co u \<longleftrightarrow>
     (sublist (to_lower q) (to_lower (name u)) \<or> sublist (to_lower q) (to_lower (username u)))
     \<and> (c = [] \<or> user_city u = c) \<and> (co = [] \<or> user_company u = co)"

lemma matches_search_sublist:
  "matches_search q u \<longleftrightarrow>
     sublist (to_lower q) (to_lower (name u)) \<or> sublist (to_lower q) (to_lower (username u))"
  by (simp add: matches_search_def js_includes_sublist)

lemma matches_city_iff: "matches_city c u \<longleftrightarrow> c = [] \<or> user_city u = c"
  and matches_company_iff: "matches_company c u \<longleftrightarrow> c = [] \<or> user_company u = c"
  by (cases c; simp add: matches_city_def matches_company_def)+

lemmas match_simps = matches_search_sublist matches_city_iff matches_company_iff

lemma filter_pipeline_filter: "filter_pipeline q c co us = filter (user_matches q c co) us"
  by (simp add: filter_pipeline_def user_matches_def [abs_def] match_simps conj_ac)

lemma user_matches_empty [simp]: "user_matches [] [] [] u"
  by (simp add: user_matches_def to_lower_def)

lemma app_handle_load_fields [simp]:
  "users (app_handle e s) = users s"
  "loading (app_handle e s) = loading s"
  "error (app_handle e s) = error s"
  by (cases e; simp)+

lemma fetch_chain_cases:
  "fetch_chain (Rejected m) = Inl m"
  "\<not> ok res \<Longrightarrow> fetch_chain (Resolved res) = Inl ''Failed to fetch''"
  "ok res \<Longrightarrow> body res = JsonInvalid m \<Longrightarrow> fetch_chain (Resolved res) = Inl m"
  "ok res \<Longrightarrow> body res = JsonUsers d \<Longrightarrow> fetch_chain (Resolved res) = Inr d"
  by (simp_all add: fetch_chain_def)

lemma settle_fetch_Inl: "fetch_chain r = Inl m \<Longrightarrow> settle_fetch r s = s\<lparr>error := Some m, loading := False\<rparr>"
  and settle_fetch_Inr: "fetch_chain r = Inr d \<Longrightarrow> settle_fetch r s = s\<lparr>users := d, loading := False\<rparr>"
  by (simp_all add: settle_fetch_def on_error_def on_data_def)

lemma render_app_main [view_simps]:
  "main (render_app s) =
     (if \<not> loading s \<and> \<not> truthy_opt (error s)
      then Some (MainView (map (\<lambda>u. CardElem (uid u) u) (filtered_users s)) (filtered_users s = []))
      else None)"
  by (simp add: render_app_def Let_def)

lemma render_app_loading_text [view_simps]:
  "loading_text (render_app s) = (if loading s then Some ''Loading users...'' else None)"
  and render_app_error_text [view_simps]:
  "error_text (render_app s) =
     (if truthy_opt (error s) then Some (''Error: '' @ the (error s) @ '' '') else None)"
  and render_app_dark_class [view_simps]: "dark_class (render_app s) = darkMode s"
  by (simp_all add: render_app_def Let_def)

text \<open>C1: The three chained filters of lines 35--40 implement the single matching
  criterion of the spec on the current state: a case-insensitive substring match on
  name or username, and exact matches on the selected city and company when these are
  non-empty.\<close>

theorem filtered_users_refines:
  "filtered_users s = [u \<leftarrow> users s. user_matches (search s) (cityFilter s) (companyFilter s) u]"
  by (simp add: filtered_users_def filter_pipeline_filter)

text \<open>The filtered list keeps the order of the loaded list: it is a subsequence.\<close>

theorem filtered_users_subseq: "subseq (filtered_users s) (users s)"
  by (simp add: filtered_users_def filter_pipeline_filter)

text \<open>Filtering is idempotent.\<close>

theorem filter_pipeline_idem:
  "filter_pipeline q c co (filter_pipeline q c co us) = filter_pipeline q c co us"
  by (simp add: filter_pipeline_filter)

text \<open>An empty search with no city or company selected gives the whole list.\<close>

theorem filter_pipeline_no_criteria: "filter_pipeline [] [] [] us = us"
  by (simp add: filter_pipeline_filter)

text \<open>C13: The search match depends only on the lower-case forms of the query and of
  the name and username: it is case-insensitive.\<close>

theorem matches_search_case_insensitive:
  assumes "to_lower q = to_lower q'"
    and "to_lower (name u) = to_lower (name u')"
    and "to_lower (username u) = to_lower (username u')"
  shows "matches_search q u = matches_search q' u'"
  using assms by (simp add: matches_search_def)

theorem matches_search_case_insensitive_witness:
  "to_lower ''MORA'' = to_lower ''mora''
   \<and> to_lower (name (mk_user 1 ''Leanne Graham'' ''SAMORAK'' ''Gwenborough'' ''Romaguera''))
       = to_lower (name (mk_user 1 ''leanne graham'' ''samorak'' ''Gwenborough'' ''Romaguera''))
   \<and> to_lower (username (mk_user 1 ''Leanne Graham'' ''SAMORAK'' ''Gwenborough'' ''Romaguera''))
       = to_lower (username (mk_user 1 ''leanne graham'' ''samorak'' ''Gwenborough'' ''Romaguera''))
   \<and> matches_search ''MORA'' (mk_user 1 ''Leanne Graham'' ''SAMORAK'' ''Gwenborough'' ''Romaguera'')
       = matches_search ''mora'' (mk_user 1 ''leanne graham'' ''samorak'' ''Gwenborough'' ''Romaguera'')"
proof -
  have h: "to_lower ''MORA'' = to_lower ''mora''"
    "to_lower (name (mk_user 1 ''Leanne Graham'' ''SAMORAK'' ''Gwenborough'' ''Romaguera''))
       = to_lower (name (mk_user 1 ''leanne graham'' ''samorak'' ''Gwenborough'' ''Romaguera''))"
    "to_lower (username (mk_user 1 ''Leanne Graham'' ''SAMORAK'' ''Gwenborough'' ''Romaguera''))
       = to_lower (username (mk_user 1 ''leanne graham'' ''samorak'' ''Gwenborough'' ''Romaguera''))"
    by (simp_all add: js_simps)
  show ?thesis using h matches_search_case_insensitive [OF h] by simp
qed

text \<open>C6: The city and company options are the cities and companies of the loaded
  records in the order of their first occurrence (the insertion order of the JavaScript
  \<open>Set\<close>).\<close>

theorem cities_first_occurrence:
  "cities us = rev (remdups (rev (map user_city us)))
   \<and> companies us = rev (remdups (rev (map user_company us)))"
  by (simp add: cities_def companies_def set_from_list_remdups)

text \<open>C7: Every loaded record's city appears among the city options exactly once,
  whatever the duplicates among the records.\<close>

theorem cities_once:
  assumes "u \<in> set us"
  shows "count_list (cities us) (user_city u) = 1"
proof -
  have "user_city u \<in> set (cities us)" using assms by (simp add: cities_def)
  then show ?thesis by (simp add: cities_def distinct_count_list_one)
qed

theorem cities_once_witness:
  "mk_user 3 ''C'' ''c'' ''Gwenborough'' ''Y'' \<in> set [mk_user 1 ''A'' ''a'' ''Gwenborough'' ''X'',
      mk_user 2 ''B'' ''b'' ''Wisokyburgh'' ''Y'', mk_user 3 ''C'' ''c'' ''Gwenborough'' ''Y'']
   \<and> count_list (cities [mk_user 1 ''A'' ''a'' ''Gwenborough'' ''X'',
      mk_user 2 ''B'' ''b'' ''Wisokyburgh'' ''Y'', mk_user 3 ''C'' ''c'' ''Gwenborough'' ''Y''])
      (user_city (mk_user 3 ''C'' ''c'' ''Gwenborough'' ''Y'')) = 1"
  using cities_once [of "mk_user 3 ''C'' ''c'' ''Gwenborough'' ''Y''"
      "[mk_user 1 ''A'' ''a'' ''Gwenborough'' ''X'', mk_user 2 ''B'' ''b'' ''Wisokyburgh'' ''Y'',
        mk_user 3 ''C'' ''c'' ''Gwenborough'' ''Y'']"]
  by simp

text \<open>Refining the search text (the old query, lower-cased, occurs in the new one)
  can only remove records from the filtered list, never add or reorder them.\<close>

theorem search_refinement_narrows:
  assumes "sublist (to_lower q) (to_lower q')"
  shows "subseq (filter_pipeline q' c co us) (filter_pipeline q c co us)"
proof -
  have "user_matches q c co u" if "user_matches q' c co u" for u
    using that assms by (auto simp: user_matches_def intro: sublist_order.order_trans)
  then show ?thesis by (simp add: filter_pipeline_filter subseq_filter_mono)
qed

theorem search_refinement_narrows_witness:
  "sublist (to_lower ''mo'') (to_lower ''MORA'')
   \<and> subseq (filter_pipeline ''MORA'' [] [] [mk_user 1 ''Leanne Graham'' ''Samorak'' ''Gwenborough'' ''X'',
        mk_user 2 ''Ervin Howell'' ''Antonette'' ''Wisokyburgh'' ''Y''])
      (filter_pipeline ''mo'' [] [] [mk_user 1 ''Leanne Graham'' ''Samorak'' ''Gwenborough'' ''X'',
        mk_user 2 ''Ervin Howell'' ''Antonette'' ''Wisokyburgh'' ''Y''])"
proof -
  have h: "sublist (to_lower ''mo'') (to_lower ''MORA'')"
    by (simp add: js_simps sublist_Cons_right)
  show ?thesis using h search_refinement_narrows [OF h] by blast
qed

text \<open>The grid shows the no-match text and no card exactly when the load has
  settled without a (truthy) error and the filters leave no record.\<close>

theorem render_no_match:
  "main (render_app s) = Some (MainView [] True)
   \<longleftrightarrow> \<not> loading s \<and> \<not> truthy_opt (error s) \<and> filtered_users s = []"
  by (simp add: render_app_main)


text \<open>C24: Selecting a non-empty city offered by the dropdown, with no search text and
  no company, shows exactly the records of that city, and never none.  (A record whose
  city is the empty string yields an option whose value is that of "All Cities".)\<close>

theorem city_option_selects:
  assumes "c \<in> set (cities us)" and "c \<noteq> []"
  shows "filter_pipeline [] c [] us = [u \<leftarrow> us. user_city u = c] \<and> filter_pipeline [] c [] us \<noteq> []"
  using assms
  by (auto simp: filter_pipeline_filter user_matches_def [abs_def] cities_def to_lower_def
      filter_empty_conv)

theorem city_option_selects_witness:
  "''Wisokyburgh'' \<in> set (cities [mk_user 1 ''A'' ''a'' ''Gwenborough'' ''X'',
      mk_user 2 ''B'' ''b'' ''Wisokyburgh'' ''Y''])
   \<and> ''Wisokyburgh'' \<noteq> []
   \<and> filter_pipeline [] ''Wisokyburgh'' []
       [mk_user 1 ''A'' ''a'' ''Gwenborough'' ''X'', mk_user 2 ''B'' ''b'' ''Wisokyburgh'' ''Y'']
     = [mk_user 2 ''B'' ''b'' ''Wisokyburgh'' ''Y'']"
proof -
  let ?us = "[mk_user 1 ''A'' ''a'' ''Gwenborough'' ''X'', mk_user 2 ''B'' ''b'' ''Wisokyburgh'' ''Y'']"
  have h: "''Wisokyburgh'' \<in> set (cities ?us)" "''Wisokyburgh'' \<noteq> []"
    by (simp_all add: cities_def)
  show ?thesis using h city_option_selects [OF h] by simp
qed

lemma render_sections_one:
  assumes "\<not> (loading s \<and> truthy_opt (error s))"
  shows "length (filter id [loading_text (render_app s) \<noteq> None, error_text (render_app s) \<noteq> None,
                           main (render_app s) \<noteq> None]) = 1"
  using assms by (simp add: view_simps)


text \<open>C31: In the error callback the message is stored before the loading flag is
  cleared, so the render between the two updates shows the loading text and the error
  text together.\<close>

theorem unbatched_error_shows_both:
  assumes "loading s" and "m \<noteq> []"
  shows "length (filter id [loading_text (render_app (hd (apply_updates (error_updates m) s))) \<noteq> None,
                            error_text (render_app (hd (apply_updates (error_updates m) s))) \<noteq> None,
                            main (render_app (hd (apply_updates (error_updates m) s))) \<noteq> None]) = 2"
  using assms by (simp add: error_updates_def view_simps truthy_def)

theorem unbatched_error_shows_both_witness:
  "loading app_init \<and> ''Failed to fetch'' \<noteq> []
   \<and> length (filter id
       [loading_text (render_app (hd (apply_updates (error_updates ''Failed to fetch'') app_init))) \<noteq> None,
        error_text (render_app (hd (apply_updates (error_updates ''Failed to fetch'') app_init))) \<noteq> None,
        main (render_app (hd (apply_updates (error_updates ''Failed to fetch'') app_init))) \<noteq> None]) = 2"
proof -
  have h: "loading app_init" "''Failed to fetch'' \<noteq> []" by (simp_all add: app_init_def)
  show ?thesis using h unbatched_error_shows_both [OF h] by blast
qed




end
