(* ===== verification/UserCard.thy ===== *)
theory UserCard
  imports Users
begin

text \<open>
  The card component of src/src/components/UserCard.jsx.  Its only state is the
  \<open>showMore\<close> flag of \<open>useState(false)\<close> (\<open>card_state\<close>, \<open>card_init\<close>);
  the button's handler \<open>setShowMore(prev => !prev)\<close> is \<open>toggle_show_more\<close>.
  \<open>render_card\<close> is the function body: the text content of each element it
  returns, the button label, and the detail block, present only when the flag is set.
  The lemmas show that the always-visible fields do not depend on the flag, that the
  details are shown exactly when the flag is set, that a fresh card is collapsed, and
  that the card is the two-state machine Collapsed/Expanded of the spec, refined by
  \<open>card_mode\<close>.
\<close>

record card_state =
  showMore :: bool

record card_details =
  phone_line :: js_string
  website_line :: js_string
  address_line :: js_string

record card_view =
  title :: js_string
  handle :: js_string
  email_line :: js_string
  company_line :: js_string
  city_line :: js_string
  button_label :: js_string
  details :: "card_details option"

datatype card_mode = Collapsed | Expanded

definition card_init :: card_state where
  "card_init = \<lparr>showMore = False\<rparr>"

definition toggle_show_more :: "card_state \<Rightarrow> card_state" where
  "toggle_show_more s = s\<lparr>showMore := \<not> showMore s\<rparr>"

definition render_card :: "user \<Rightarrow> card_state \<Rightarrow> card_view" where
  "render_card u s =
     \<lparr>title = name u,
      handle = ''@'' @ username u,
      email_line = email u,
      company_line = company_name (company u),
      city_line = city (address u),
      button_label = (if showMore s then ''Hide Details'' else ''View More''),
      details =
        (if showMore s then
           Some \<lparr>phone_line = ''Phone:'' @ phone u,
                 website_line = ''Website:'' @ website u,
                 address_line = ''Address:'' @ street (address u) @ '', '' @ zipcode (address u)\<rparr>
         else None)\<rparr>"

definition card_mode :: "card_state \<Rightarrow> card_mode" where
  "card_mode s = (if showMore s then Expanded else Collapsed)"

fun mode_step :: "card_mode \<Rightarrow> card_mode" where
  "mode_step Collapsed = Expanded"
| "mode_step Expanded = Collapsed"

definition summary :: "card_view \<Rightarrow> js_string list" where
  "summary v = [title v, handle v, email_line v, company_line v, city_line v]"

lemma showMore_toggle [simp]: "showMore (toggle_show_more s) = (\<not> showMore s)"
  by (simp add: toggle_show_more_def)

lemma toggle_show_more_twice [simp]: "toggle_show_more (toggle_show_more s) = s"
  by (simp add: toggle_show_more_def)

lemma showMore_card_init [simp]: "showMore card_init = False"
  by (simp add: card_init_def)

lemma details_render_card [view_simps]:
  "details (render_card u s) =
     (if showMore s then
        Some \<lparr>phone_line = ''Phone:'' @ phone u, website_line = ''Website:'' @ website u,
              address_line = ''Address:'' @ street (address u) @ '', '' @ zipcode (address u)\<rparr>
      else None)"
  by (simp add: render_card_def)

lemma summary_render_card [view_simps]:
  "summary (render_card u s) =
     [name u, ''@'' @ username u, email u, company_name (company u), city (address u)]"
  by (simp add: render_card_def summary_def)

text \<open>The always-visible fields of a card depend on the user record only.\<close>

lemma toggle_keeps_summary:
  "summary (render_card u (toggle_show_more s)) = summary (render_card u s)"
  by (simp add: summary_render_card)

text \<open>C39: Details are shown exactly when the card is expanded.\<close>

lemma details_shown_iff:
  "details (render_card u s) \<noteq> None \<longleftrightarrow> card_mode s = Expanded"
  by (simp add: details_render_card card_mode_def)

text \<open>C40: Toggling refines the spec's two-state machine: one toggle is one transition.\<close>

lemma toggle_refines_mode_step:
  "card_mode (toggle_show_more s) = mode_step (card_mode s)"
  by (simp add: card_mode_def)

end
