(* ===== verification/Runtime.thy ===== *)
theory Runtime
  imports Directory UserCard
begin

text \<open>
  The page as React runs it: the \<open>App\<close> state, whether the mount effect of
  src/src/app.jsx lines 13--28 (dependency list \<open>[]\<close>) has run, whether its fetch
  is still pending, and the local state of every mounted \<open>UserCard\<close>, indexed by
  the \<open>key={user.id}\<close> of line 81.  After each state change React re-renders and
  reconciles the cards by key (\<open>reconcile\<close>, applied by \<open>commit\<close>): a card whose
  key is still rendered keeps its state, a new key mounts a collapsed card, a key no
  longer rendered unmounts its card.  The events are the effect running, the fetch
  settling with an outcome, an input event of the header, and a click on the button of
  one card.  \<open>rt_exec\<close> is the step as a function (\<open>None\<close> when the event
  cannot occur), \<open>rt_step\<close> the same step as an inductive relation, \<open>rt_run\<close> a
  run over a list of events, \<open>reachable\<close> the states reachable from \<open>rt_init\<close>.
  \<open>load_state\<close> abstracts the \<open>App\<close> state to the spec's LoadState, and
  \<open>load_step\<close> is the spec's one-way machine Loading \<open>\<rightarrow>\<close> Loaded / Failed.
  \<open>render_page\<close> is the whole rendered page: the \<open>App\<close> view and the view of
  every card of the grid.  Besides the invariant \<open>rt_inv\<close> and the refinement of
  LoadState, the theory proves two round trips: two clicks on one card, and two
  dark-mode toggles on a reachable page, give back the state they started from.
\<close>

record runtime =
  app :: app_state
  effect_ran :: bool
  pending :: bool
  card_states :: "user_id \<rightharpoonup> card_state"

datatype rt_event = RunEffect | is_settle: Settle fetch_outcome | Input app_event | CardClick user_id

datatype load_state = Loading | Loaded "user list" | Failed js_string

definition rt_init :: runtime where
  "rt_init = \<lparr>app = app_init, effect_ran = False, pending = False, card_states = Map.empty\<rparr>"

definition rendered_keys :: "app_state \<Rightarrow> user_id list" where
  "rendered_keys s = (case main (render_app s) of None \<Rightarrow> [] | Some m \<Rightarrow> map elem_key (grid m))"

definition reconcile :: "user_id list \<Rightarrow> (user_id \<rightharpoonup> card_state) \<Rightarrow> (user_id \<rightharpoonup> card_state)" where
  "reconcile ks m =
     (\<lambda>k. if k \<in> set ks then Some (case m k of None \<Rightarrow> card_init | Some c \<Rightarrow> c) else None)"

definition commit :: "app_state \<Rightarrow> runtime \<Rightarrow> runtime" where
  "commit a r = r\<lparr>app := a, card_states := reconcile (rendered_keys a) (card_states r)\<rparr>"

fun rt_exec :: "runtime \<Rightarrow> rt_event \<Rightarrow> runtime option" where
  "rt_exec r RunEffect =
     (if effect_ran r then None else Some (r\<lparr>effect_ran := True, pending := True\<rparr>))"
| "rt_exec r (Settle x) =
     (if pending r then Some (commit (settle_fetch x (app r)) (r\<lparr>pending := False\<rparr>)) else None)"
| "rt_exec r (Input e) = Some (commit (app_handle e (app r)) r)"
| "rt_exec r (CardClick k) =
     (case card_states r k of
        None \<Rightarrow> None
      | Some c \<Rightarrow> Some (r\<lparr>card_states := (card_states r)(k \<mapsto> toggle_show_more c)\<rparr>))"

fun rt_run :: "runtime \<Rightarrow> rt_event list \<Rightarrow> runtime option" where
  "rt_run r [] = Some r"
| "rt_run r (e # es) = (case rt_exec r e of None \<Rightarrow> None | Some r' \<Rightarrow> rt_run r' es)"

inductive rt_step :: "runtime \<Rightarrow> rt_event \<Rightarrow> runtime \<Rightarrow> bool" where
  run_effect: "\<not> effect_ran r \<Longrightarrow> rt_step r RunEffect (r\<lparr>effect_ran := True, pending := True\<rparr>)"
| settle: "pending r \<Longrightarrow> rt_step r (Settle x) (commit (settle_fetch x (app r)) (r\<lparr>pending := False\<rparr>))"
| input: "rt_step r (Input e) (commit (app_handle e (app r)) r)"
| card_click: "card_states r k = Some c \<Longrightarrow>
    rt_step r (CardClick k) (r\<lparr>card_states := (card_states r)(k \<mapsto> toggle_show_more c)\<rparr>)"

inductive reachable :: "runtime \<Rightarrow> bool" where
  init: "reachable rt_init"
| step: "reachable r \<Longrightarrow> rt_step r e r' \<Longrightarrow> reachable r'"

definition load_state :: "app_state \<Rightarrow> load_state" where
  "load_state s =
     (if loading s then Loading else (case error s of None \<Rightarrow> Loaded (users s) | Some m \<Rightarrow> Failed m))"

inductive load_step :: "load_state \<Rightarrow> load_state \<Rightarrow> bool" where
  loaded: "load_step Loading (Loaded us)"
| failed: "load_step Loading (Failed m)"

definition rt_inv :: "runtime \<Rightarrow> bool" where
  "rt_inv r \<longleftrightarrow>
     (loading (app r) \<longleftrightarrow> \<not> effect_ran r \<or> pending r)
     \<and> (pending r \<longrightarrow> effect_ran r)
     \<and> (loading (app r) \<longrightarrow> users (app r) = [] \<and> error (app r) = None)
     \<and> (error (app r) \<noteq> None \<longrightarrow> users (app r) = [])
     \<and> dom (card_states r) = set (rendered_keys (app r))"

definition card_of :: "runtime \<Rightarrow> user_id \<Rightarrow> card_state" where
  "card_of r k = (case card_states r k of None \<Rightarrow> card_init | Some c \<Rightarrow> c)"

definition render_page :: "runtime \<Rightarrow> app_view \<times> card_view list" where
  "render_page r =
     (let v = render_app (app r)
      in (v, case main v of
               None \<Rightarrow> []
             | Some m \<Rightarrow> map (\<lambda>e. render_card (elem_user e) (card_of r (elem_key e))) (grid m)))"

definition demo_users :: "user list" where
  "demo_users =
     [mk_user 1 ''Leanne Graham'' ''Bret'' ''Gwenborough'' ''Romaguera-Crona'',
      mk_user 2 ''Ervin Howell'' ''Antonette'' ''Wisokyburgh'' ''Deckow-Crist'']"

definition demo_fetching :: runtime where
  "demo_fetching = rt_init\<lparr>effect_ran := True, pending := True\<rparr>"

definition demo_settled :: "fetch_outcome \<Rightarrow> runtime" where
  "demo_settled x = commit (settle_fetch x (app demo_fetching)) (demo_fetching\<lparr>pending := False\<rparr>)"

definition demo_loaded :: runtime where
  "demo_loaded = demo_settled (Resolved \<lparr>ok = True, body = JsonUsers demo_users\<rparr>)"

inductive_cases rt_step_RunEffectE: "rt_step r RunEffect r'"
inductive_cases rt_step_SettleE: "rt_step r (Settle x) r'"
inductive_cases rt_step_InputE: "rt_step r (Input e) r'"
inductive_cases rt_step_CardClickE: "rt_step r (CardClick k) r'"

lemma rt_step_imp_exec: "rt_step r e r' \<Longrightarrow> rt_exec r e = Some r'"
  by (induction rule: rt_step.induct) simp_all

lemma rt_exec_imp_step: "rt_exec r e = Some r' \<Longrightarrow> rt_step r e r'"
  by (cases e) (auto split: if_splits option.splits intro: rt_step.intros)

lemma dom_reconcile [simp]: "dom (reconcile ks m) = set ks"
  by (auto simp: reconcile_def split: if_splits)

lemma reconcile_same: "dom m = set ks \<Longrightarrow> reconcile ks m = m"
  by (rule ext) (auto simp: reconcile_def split: option.splits)

lemma card_states_commit [simp]:
  "card_states (commit a r) = reconcile (rendered_keys a) (card_states r)"
  and app_commit [simp]: "app (commit a r) = a"
  and flags_commit [simp]: "effect_ran (commit a r) = effect_ran r" "pending (commit a r) = pending r"
  by (simp_all add: commit_def)

lemma card_of_commit:
  "card_of (commit a r) k = (if k \<in> set (rendered_keys a) then card_of r k else card_init)"
  by (simp add: card_of_def reconcile_def)

lemma card_of_commit_fresh [simp]:
  "card_states r = Map.empty \<Longrightarrow> card_of (commit a r) k = card_init"
  by (simp add: card_of_def reconcile_def)

lemma rendered_keys_filtered:
  "rendered_keys s = (if \<not> loading s \<and> \<not> truthy_opt (error s) then map uid (filtered_users s) else [])"
  by (simp add: rendered_keys_def render_app_main comp_def)

lemma render_page_cards [view_simps]:
  "snd (render_page r) =
     map (\<lambda>u. render_card u (card_of r (uid u)))
       (if \<not> loading (app r) \<and> \<not> truthy_opt (error (app r)) then filtered_users (app r) else [])"
  by (simp add: render_page_def render_app_main Let_def comp_def)

lemma rendered_keys_dark_mode [simp]: "rendered_keys (a\<lparr>darkMode := b\<rparr>) = rendered_keys a"
  by (simp add: rendered_keys_filtered filtered_users_def)

lemma commit_same_keys:
  "rt_inv r \<Longrightarrow> rendered_keys a = rendered_keys (app r) \<Longrightarrow> commit a r = r\<lparr>app := a\<rparr>"
  by (simp add: commit_def reconcile_same rt_inv_def)

lemma rt_inv_init: "rt_inv rt_init"
  by (simp add: rt_inv_def rt_init_def app_init_def rendered_keys_filtered)

lemma rt_inv_run_effect: "rt_inv r \<Longrightarrow> rt_step r RunEffect r' \<Longrightarrow> rt_inv r'"
  by (erule rt_step_RunEffectE) (simp add: rt_inv_def)

lemma rt_inv_settle: "rt_inv r \<Longrightarrow> rt_step r (Settle x) r' \<Longrightarrow> rt_inv r'"
proof (erule rt_step_SettleE)
  assume inv: "rt_inv r" and p: "pending r"
    and r': "r' = commit (settle_fetch x (app r)) (r\<lparr>pending := False\<rparr>)"
  from inv p have "effect_ran r" "users (app r) = []" "error (app r) = None"
    by (simp_all add: rt_inv_def)
  with r' show "rt_inv r'"
    by (cases "fetch_chain x") (simp_all add: rt_inv_def settle_fetch_Inl settle_fetch_Inr)
qed

lemma rt_inv_input: "rt_inv r \<Longrightarrow> rt_step r (Input e) r' \<Longrightarrow> rt_inv r'"
  by (erule rt_step_InputE) (simp add: rt_inv_def)

lemma rt_inv_card_click: "rt_inv r \<Longrightarrow> rt_step r (CardClick k) r' \<Longrightarrow> rt_inv r'"
  by (erule rt_step_CardClickE) (auto simp: rt_inv_def)

lemma rt_step_inv: "rt_step r e r' \<Longrightarrow> rt_inv r \<Longrightarrow> rt_inv r'"
  by (cases e) (blast intro: rt_inv_run_effect rt_inv_settle rt_inv_input rt_inv_card_click)+

lemma reachable_inv: "reachable r \<Longrightarrow> rt_inv r"
  by (induction rule: reachable.induct) (simp_all add: rt_inv_init rt_step_inv)

lemma reachable_demo_fetching: "reachable demo_fetching"
  unfolding demo_fetching_def
  by (rule reachable.step [OF reachable.init rt_step.run_effect]) (simp add: rt_init_def)

lemma rt_step_demo_settled: "rt_step demo_fetching (Settle x) (demo_settled x)"
  unfolding demo_settled_def by (rule rt_step.settle) (simp add: demo_fetching_def)

lemma reachable_demo_settled: "reachable (demo_settled x)"
  by (rule reachable.step [OF reachable_demo_fetching rt_step_demo_settled])

lemma app_demo_loaded: "app demo_loaded = app_init\<lparr>users := demo_users, loading := False\<rparr>"
  by (simp add: demo_loaded_def demo_settled_def demo_fetching_def rt_init_def settle_fetch_Inr
      fetch_chain_cases)

lemma card_states_demo_loaded: "card_states demo_loaded = [1 \<mapsto> card_init, 2 \<mapsto> card_init]"
proof -
  have "rendered_keys (app demo_loaded) = [1, 2]"
    by (simp add: app_demo_loaded rendered_keys_filtered app_init_def filtered_users_def
        filter_pipeline_filter demo_users_def)
  then show ?thesis
    by (simp add: demo_loaded_def demo_settled_def demo_fetching_def rt_init_def reconcile_def
        app_demo_loaded [unfolded demo_loaded_def demo_settled_def] fun_eq_iff)
qed

lemma load_state_simps [simp]:
  "loading s \<Longrightarrow> load_state s = Loading"
  "\<not> loading s \<Longrightarrow> error s = None \<Longrightarrow> load_state s = Loaded (users s)"
  "\<not> loading s \<Longrightarrow> error s = Some m \<Longrightarrow> load_state s = Failed m"
  by (simp_all add: load_state_def)

lemma load_state_app_handle [simp]: "load_state (app_handle e s) = load_state s"
  by (simp add: load_state_def split: option.split)

lemma rt_step_load_state:
  assumes "rt_inv r" and "rt_step r e r'"
  shows "load_state (app r') = load_state (app r)
         \<or> load_state (app r) = Loading \<and> load_step Loading (load_state (app r'))"
  using assms(2)
proof cases
  case (settle x)
  from assms(1) \<open>pending r\<close> have "loading (app r)" "error (app r) = None"
    by (simp_all add: rt_inv_def)
  then show ?thesis using \<open>r' = commit (settle_fetch x (app r)) (r\<lparr>pending := False\<rparr>)\<close>
    by (cases "fetch_chain x")
       (simp_all add: settle_fetch_Inl settle_fetch_Inr load_step.intros)
qed simp_all

lemma run_fetch_budget:
  "rt_run r es = Some r' \<Longrightarrow> (pending r \<longrightarrow> effect_ran r) \<Longrightarrow>
   count_list es RunEffect \<le> (if effect_ran r then 0 else 1)
   \<and> length (filter is_settle es) \<le> (if effect_ran r \<and> \<not> pending r then 0 else 1)"
proof (induction es arbitrary: r)
  case Nil
  then show ?case by simp
next
  case (Cons e es)
  from Cons.prems(1) obtain r1 where r1: "rt_exec r e = Some r1" and rest: "rt_run r1 es = Some r'"
    by (auto split: option.splits)
  show ?case
  proof (cases e)
    case RunEffect
    with r1 Cons.IH [of r1] rest show ?thesis by (auto split: if_splits)
  next
    case (Settle x)
    with r1 Cons.IH [of r1] rest Cons.prems(2) show ?thesis by (auto split: if_splits)
  next
    case (Input a)
    with r1 Cons.IH [of r1] rest Cons.prems(2) show ?thesis by (auto simp: commit_def)
  next
    case (CardClick k)
    with r1 Cons.IH [of r1] rest Cons.prems(2) show ?thesis by (auto split: option.splits)
  qed
qed


text \<open>C2: Every step of the page refines the spec's LoadState machine: it either leaves
  the LoadState unchanged or takes one of the transitions Loading \<open>\<rightarrow>\<close> Loaded and
  Loading \<open>\<rightarrow>\<close> Failed.\<close>

theorem reachable_load_refines:
  assumes "reachable r" and "rt_step r e r'"
  shows "load_state (app r') = load_state (app r) \<or> load_step (load_state (app r)) (load_state (app r'))"
  using rt_step_load_state [OF reachable_inv [OF assms(1)] assms(2)] by auto

theorem reachable_load_refines_witness:
  "reachable demo_fetching
   \<and> rt_step demo_fetching (Settle (Resolved \<lparr>ok = True, body = JsonUsers demo_users\<rparr>)) demo_loaded
   \<and> (load_state (app demo_loaded) = load_state (app demo_fetching)
      \<or> load_step (load_state (app demo_fetching)) (load_state (app demo_loaded)))"
proof -
  have h: "reachable demo_fetching"
    "rt_step demo_fetching (Settle (Resolved \<lparr>ok = True, body = JsonUsers demo_users\<rparr>)) demo_loaded"
    by (simp_all add: reachable_demo_fetching rt_step_demo_settled demo_loaded_def)
  show ?thesis using h reachable_load_refines [OF h] by blast
qed

text \<open>C3: Loaded and Failed are terminal: once the load has settled, no step changes the
  LoadState, and the loading indicator never comes back.\<close>

theorem reachable_load_terminal:
  assumes "reachable r" and "rt_step r e r'" and "load_state (app r) \<noteq> Loading"
  shows "load_state (app r') = load_state (app r)"
  using rt_step_load_state [OF reachable_inv [OF assms(1)] assms(2)] assms(3) by auto

theorem reachable_load_terminal_witness:
  "reachable demo_loaded
   \<and> rt_step demo_loaded (Input (SearchInput ''Ervin''))
       (commit (app_handle (SearchInput ''Ervin'') (app demo_loaded)) demo_loaded)
   \<and> load_state (app demo_loaded) \<noteq> Loading
   \<and> load_state (app (commit (app_handle (SearchInput ''Ervin'') (app demo_loaded)) demo_loaded))
       = load_state (app demo_loaded)"
proof -
  have h1: "reachable demo_loaded"
    unfolding demo_loaded_def by (rule reachable_demo_settled)
  have h2: "rt_step demo_loaded (Input (SearchInput ''Ervin''))
      (commit (app_handle (SearchInput ''Ervin'') (app demo_loaded)) demo_loaded)"
    by (rule rt_step.input)
  have h3: "load_state (app demo_loaded) \<noteq> Loading"
    by (simp add: app_demo_loaded app_init_def)
  show ?thesis using h1 h2 h3 reachable_load_terminal [OF h1 h2 h3] by blast
qed

text \<open>C4: The page issues at most one fetch and receives at most one settlement, whatever
  the sequence of events.\<close>

theorem at_most_one_fetch:
  assumes "rt_run rt_init es = Some r"
  shows "count_list es RunEffect \<le> 1 \<and> length (filter is_settle es) \<le> 1"
  using run_fetch_budget [OF assms] by (simp add: rt_init_def)

theorem at_most_one_fetch_witness:
  "rt_run rt_init [RunEffect, Settle (Resolved \<lparr>ok = True, body = JsonUsers demo_users\<rparr>),
       Input DarkModeClick]
     = Some (commit (app_handle DarkModeClick (app demo_loaded)) demo_loaded)
   \<and> count_list [RunEffect, Settle (Resolved \<lparr>ok = True, body = JsonUsers demo_users\<rparr>),
       Input DarkModeClick] RunEffect \<le> 1
   \<and> length (filter is_settle [RunEffect, Settle (Resolved \<lparr>ok = True, body = JsonUsers demo_users\<rparr>),
       Input DarkModeClick]) \<le> 1"
proof -
  have h: "rt_run rt_init [RunEffect, Settle (Resolved \<lparr>ok = True, body = JsonUsers demo_users\<rparr>),
       Input DarkModeClick] = Some (commit (app_handle DarkModeClick (app demo_loaded)) demo_loaded)"
    by (simp add: demo_loaded_def demo_settled_def demo_fetching_def rt_init_def)
  show ?thesis using h at_most_one_fetch [OF h] by blast
qed

text \<open>C30: The load always settles: from the initial page, running the effect and settling
  its fetch with any outcome is possible and leaves the Loading state.\<close>

theorem fetch_settles:
  "\<exists>r. rt_run rt_init [RunEffect, Settle x] = Some r \<and> load_state (app r) \<noteq> Loading"
  by (cases "fetch_chain x")
     (simp_all add: rt_init_def commit_def load_state_def app_init_def settle_fetch_Inl
        settle_fetch_Inr)

text \<open>C5: In every reachable state exactly one of the loading text, the error text and
  the main grid is rendered.\<close>

theorem reachable_one_section:
  assumes "reachable r"
  shows "length (filter id [loading_text (render_app (app r)) \<noteq> None,
                           error_text (render_app (app r)) \<noteq> None,
                           main (render_app (app r)) \<noteq> None]) = 1"
proof -
  have "rt_inv r" using assms by (rule reachable_inv)
  then have "\<not> (loading (app r) \<and> truthy_opt (error (app r)))" by (auto simp: rt_inv_def)
  then show ?thesis by (rule render_sections_one)
qed

theorem reachable_one_section_witness:
  "reachable demo_loaded
   \<and> length (filter id [loading_text (render_app (app demo_loaded)) \<noteq> None,
                       error_text (render_app (app demo_loaded)) \<noteq> None,
                       main (render_app (app demo_loaded)) \<noteq> None]) = 1"
proof -
  have h: "reachable demo_loaded"
    unfolding demo_loaded_def by (rule reachable_demo_settled)
  show ?thesis using h reachable_one_section [OF h] by blast
qed

text \<open>C25: In every reachable state the loading flag is set exactly while the mount
  effect has not run or its fetch is still pending.\<close>

theorem reachable_loading_iff_unsettled:
  assumes "reachable r"
  shows "loading (app r) \<longleftrightarrow> \<not> effect_ran r \<or> pending r"
  using reachable_inv [OF assms] by (simp add: rt_inv_def)

theorem reachable_loading_iff_unsettled_witness:
  "reachable demo_fetching \<and> (loading (app demo_fetching) \<longleftrightarrow> \<not> effect_ran demo_fetching \<or> pending demo_fetching)"
proof -
  have h: "reachable demo_fetching" by (rule reachable_demo_fetching)
  show ?thesis using h reachable_loading_iff_unsettled [OF h] by blast
qed

text \<open>C10: A failed load renders no card, whatever its message.\<close>

theorem reachable_failed_no_cards:
  assumes "reachable r" and "load_state (app r) = Failed m"
  shows "snd (render_page r) = []"
proof -
  have inv: "rt_inv r" using assms(1) by (rule reachable_inv)
  from assms(2) have "error (app r) = Some m"
    by (simp add: load_state_def split: if_splits option.splits)
  with inv have "users (app r) = []" by (simp add: rt_inv_def)
  then show ?thesis by (simp add: render_page_cards filtered_users_def filter_pipeline_def)
qed

theorem reachable_failed_no_cards_witness:
  "reachable (demo_settled (Rejected []))
   \<and> load_state (app (demo_settled (Rejected []))) = Failed []
   \<and> snd (render_page (demo_settled (Rejected []))) = []"
proof -
  have h1: "reachable (demo_settled (Rejected []))" by (rule reachable_demo_settled)
  have h2: "load_state (app (demo_settled (Rejected []))) = Failed []"
    by (simp add: demo_settled_def demo_fetching_def rt_init_def app_init_def settle_fetch_Inl
        fetch_chain_cases)
  show ?thesis using h1 h2 reachable_failed_no_cards [OF h1 h2] by blast
qed

text \<open>C26: When the loaded records have distinct ids, the keys of the rendered cards are
  distinct, as React's keyed reconciliation requires.\<close>

theorem rendered_keys_distinct:
  assumes "ids_distinct (users s)"
  shows "distinct (rendered_keys s)"
  using assms
  by (simp add: rendered_keys_filtered ids_distinct_def filtered_users_def filter_pipeline_filter
      distinct_map_filter)

theorem rendered_keys_distinct_witness:
  "ids_distinct (users (app demo_loaded)) \<and> distinct (rendered_keys (app demo_loaded))"
proof -
  have h: "ids_distinct (users (app demo_loaded))"
    by (simp add: app_demo_loaded ids_distinct_def demo_users_def)
  show ?thesis using h rendered_keys_distinct [OF h] by blast
qed





text \<open>C27: Toggling dark mode flips the root's dark class and changes nothing else the
  page shows: not the LoadState, not the filtered list, not any card's state.\<close>

theorem dark_mode_independent:
  assumes "reachable r" and "rt_step r (Input DarkModeClick) r'"
  shows "dark_class (render_app (app r')) = (\<not> dark_class (render_app (app r)))
         \<and> load_state (app r') = load_state (app r)
         \<and> filtered_users (app r') = filtered_users (app r) \<and> card_states r' = card_states r"
proof -
  have inv: "rt_inv r" using assms(1) by (rule reachable_inv)
  have keys: "rendered_keys (app_handle DarkModeClick (app r)) = rendered_keys (app r)"
    by (simp add: rendered_keys_filtered filtered_users_def)
  from assms(2) show ?thesis
  proof (rule rt_step_InputE)
    assume "r' = commit (app_handle DarkModeClick (app r)) r"
    with inv keys show ?thesis
      by (simp add: render_app_dark_class filtered_users_def reconcile_same rt_inv_def
          load_state_def split: option.split)
  qed
qed

theorem dark_mode_independent_witness:
  "reachable demo_loaded
   \<and> rt_step demo_loaded (Input DarkModeClick) (commit (app_handle DarkModeClick (app demo_loaded)) demo_loaded)
   \<and> dark_class (render_app (app (commit (app_handle DarkModeClick (app demo_loaded)) demo_loaded)))
   \<and> card_states (commit (app_handle DarkModeClick (app demo_loaded)) demo_loaded) = card_states demo_loaded"
proof -
  have h1: "reachable demo_loaded"
    unfolding demo_loaded_def by (rule reachable_demo_settled)
  have h2: "rt_step demo_loaded (Input DarkModeClick)
      (commit (app_handle DarkModeClick (app demo_loaded)) demo_loaded)"
    by (rule rt_step.input)
  show ?thesis using h1 h2 dark_mode_independent [OF h1 h2]
    by (simp add: render_app_dark_class app_demo_loaded app_init_def)
qed

text \<open>C28: Clicking a card's button twice gives back the page's state as it was.\<close>

theorem card_click_roundtrip:
  assumes "card_states r k \<noteq> None"
  shows "rt_run r [CardClick k, CardClick k] = Some r"
proof -
  from assms obtain c where "card_states r k = Some c" by blast
  then show ?thesis by (simp add: map_upd_triv)
qed

theorem card_click_roundtrip_witness:
  "card_states demo_loaded 1 \<noteq> None \<and> rt_run demo_loaded [CardClick 1, CardClick 1] = Some demo_loaded"
proof -
  have h: "card_states demo_loaded 1 \<noteq> None" by (simp add: card_states_demo_loaded)
  show ?thesis using h card_click_roundtrip [OF h] by blast
qed

text \<open>C29: On a reachable page, toggling dark mode twice gives back the page's state
  as it was, card states included.\<close>

theorem dark_mode_roundtrip:
  assumes "reachable r"
  shows "rt_run r [Input DarkModeClick, Input DarkModeClick] = Some r"
proof -
  have inv: "rt_inv r" using assms by (rule reachable_inv)
  have inv1: "rt_inv (r\<lparr>app := (app r)\<lparr>darkMode := \<not> darkMode (app r)\<rparr>\<rparr>)"
    using rt_inv_input [OF inv rt_step.input [of r DarkModeClick]] by (simp add: commit_same_keys inv)
  show ?thesis by (simp add: commit_same_keys inv inv1)
qed

theorem dark_mode_roundtrip_witness:
  "reachable demo_loaded \<and> rt_run demo_loaded [Input DarkModeClick, Input DarkModeClick] = Some demo_loaded"
proof -
  have h: "reachable demo_loaded"
    unfolding demo_loaded_def by (rule reachable_demo_settled)
  show ?thesis using h dark_mode_roundtrip [OF h] by blast
qed

end
