(* ===== verification/Json.thy ===== *)
theory Json
  imports Directory
begin

text \<open>
  What the \<open>App\<close> render of src/src/app.jsx does with the value \<open>res.json()\<close>
  returned, whatever it is.  The callback of lines 19--22 stores that value as
  \<open>users\<close> without checking it, and every later render evaluates lines 31--40 on it.
  A JSON value is \<open>json\<close>; a JavaScript value read from it is \<open>js_value\<close>, with
  \<open>None\<close> for \<open>undefined\<close>.  Reading a property (\<open>get_prop\<close>) of
  \<open>undefined\<close> or \<open>null\<close> throws a \<open>TypeError\<close>, of any other non-object
  yields \<open>undefined\<close>, and of an object yields its last binding of the key, as
  \<open>JSON.parse\<close> keeps the last of duplicate keys.  Calling \<open>map\<close> or
  \<open>filter\<close> on a non-array and \<open>toLowerCase\<close> on a non-string throw
  (\<open>array_elems\<close>, \<open>to_lower_call\<close>).  A \<open>Set\<close> of such values compares
  with SameValueZero (\<open>same_value_zero\<close>): primitives by value, objects and arrays by
  reference, and the objects \<open>JSON.parse\<close> creates are all distinct.

  Lines 31--40 over a JSON body are \<open>cities_json\<close>, \<open>companies_json\<close>, the three
  filter predicates with their short-circuit order (\<open>||\<close> reads \<open>username\<close> only
  when the name does not match), \<open>filtered_json\<close>, and their composition
  \<open>app_data_json\<close>, in the order the render evaluates them: the first exception
  thrown is the result.  \<open>encode_user\<close> is the JSON shape of a record that the spec
  describes for the fixture, and \<open>users_json_wf\<close> the condition on a body under
  which the render cannot throw.
\<close>

datatype json =
    JNull
  | JBool bool
  | JNum int
  | JStr js_string
  | JArr "json list"
  | JObj "(js_string \<times> json) list"

type_synonym js_value = "json option"

datatype js_error = TypeError js_string

record data_view =
  city_vals :: "js_value list"
  company_vals :: "js_value list"
  shown :: "json list"

fun get_prop :: "js_value \<Rightarrow> js_string \<Rightarrow> js_error + js_value" where
  "get_prop None p = Inl (TypeError p)"
| "get_prop (Some JNull) p = Inl (TypeError p)"
| "get_prop (Some (JObj kvs)) p = Inr (map_of (rev kvs) p)"
| "get_prop (Some v) p = Inr None"

definition array_elems :: "js_value \<Rightarrow> js_string \<Rightarrow> js_error + json list" where
  "array_elems v m = (case v of Some (JArr xs) \<Rightarrow> Inr xs | _ \<Rightarrow> Inl (TypeError m))"

definition to_lower_call :: "js_value \<Rightarrow> js_error + js_string" where
  "to_lower_call v = (case v of Some (JStr s) \<Rightarrow> Inr (to_lower s) | _ \<Rightarrow> Inl (TypeError ''toLowerCase''))"

definition read_path :: "json \<Rightarrow> js_string \<Rightarrow> js_string \<Rightarrow> js_error + js_value" where
  "read_path u a b = bindE (get_prop (Some u) a) (\<lambda>v. get_prop v b)"

fun same_value_zero :: "js_value \<Rightarrow> js_value \<Rightarrow> bool" where
  "same_value_zero (Some (JObj _)) _ = False"
| "same_value_zero (Some (JArr _)) _ = False"
| "same_value_zero _ (Some (JObj _)) = False"
| "same_value_zero _ (Some (JArr _)) = False"
| "same_value_zero v w = (v = w)"

definition js_set_add :: "js_value list \<Rightarrow> js_value \<Rightarrow> js_value list" where
  "js_set_add s x = (if list_ex (\<lambda>y. same_value_zero y x) s then s else s @ [x])"

definition js_set_from_list :: "js_value list \<Rightarrow> js_value list" where
  "js_set_from_list xs = foldl js_set_add [] xs"

definition cities_json :: "js_value \<Rightarrow> js_error + js_value list" where
  "cities_json d =
     bindE (array_elems d ''map'')
       (\<lambda>us. bindE (mapE (\<lambda>u. read_path u ''address'' ''city'') us) (\<lambda>cs. Inr (js_set_from_list cs)))"

definition companies_json :: "js_value \<Rightarrow> js_error + js_value list" where
  "companies_json d =
     bindE (array_elems d ''map'')
       (\<lambda>us. bindE (mapE (\<lambda>u. read_path u ''company'' ''name'') us) (\<lambda>cs. Inr (js_set_from_list cs)))"

definition matches_search_json :: "js_string \<Rightarrow> json \<Rightarrow> js_error + bool" where
  "matches_search_json q u =
     bindE (bindE (get_prop (Some u) ''name'') to_lower_call)
       (\<lambda>n. if js_includes n (to_lower q) then Inr True
            else bindE (bindE (get_prop (Some u) ''username'') to_lower_call)
                   (\<lambda>un. Inr (js_includes un (to_lower q))))"

definition matches_city_json :: "js_string \<Rightarrow> json \<Rightarrow> js_error + bool" where
  "matches_city_json c u =
     (if truthy c then bindE (read_path u ''address'' ''city'') (\<lambda>v. Inr (v = Some (JStr c))) else Inr True)"

definition matches_company_json :: "js_string \<Rightarrow> json \<Rightarrow> js_error + bool" where
  "matches_company_json c u =
     (if truthy c then bindE (read_path u ''company'' ''name'') (\<lambda>v. Inr (v = Some (JStr c))) else Inr True)"

definition filtered_json :: "js_string \<Rightarrow> js_string \<Rightarrow> js_string \<Rightarrow> js_value \<Rightarrow> js_error + json list" where
  "filtered_json q c co d =
     bindE (array_elems d ''filter'')
       (\<lambda>us. bindE (filterE (matches_search_json q) us)
         (\<lambda>a. bindE (filterE (matches_city_json c) a) (filterE (matches_company_json co))))"

definition app_data_json :: "js_string \<Rightarrow> js_string \<Rightarrow> js_string \<Rightarrow> js_value \<Rightarrow> js_error + data_view" where
  "app_data_json q c co d =
     bindE (cities_json d)
       (\<lambda>cs. bindE (companies_json d)
         (\<lambda>cos. bindE (filtered_json q c co d)
           (\<lambda>fs. Inr \<lparr>city_vals = cs, company_vals = cos, shown = fs\<rparr>)))"

definition encode_user :: "user \<Rightarrow> json" where
  "encode_user u =
     JObj [(''id'', JNum (int (uid u))), (''name'', JStr (name u)), (''username'', JStr (username u)),
           (''email'', JStr (email u)),
           (''address'', JObj [(''street'', JStr (street (address u))), (''city'', JStr (city (address u))),
                              (''zipcode'', JStr (zipcode (address u)))]),
           (''phone'', JStr (phone u)), (''website'', JStr (website u)),
           (''company'', JObj [(''name'', JStr (company_name (company u)))])]"

fun is_object :: "js_error + js_value \<Rightarrow> bool" where
  "is_object (Inr (Some (JObj _))) = True"
| "is_object _ = False"

fun is_string :: "js_error + js_value \<Rightarrow> bool" where
  "is_string (Inr (Some (JStr _))) = True"
| "is_string _ = False"

definition user_json_wf :: "json \<Rightarrow> bool" where
  "user_json_wf u \<longleftrightarrow>
     is_object (get_prop (Some u) ''address'') \<and> is_object (get_prop (Some u) ''company'')
     \<and> is_string (get_prop (Some u) ''name'') \<and> is_string (get_prop (Some u) ''username'')"

definition users_json_wf :: "js_value \<Rightarrow> bool" where
  "users_json_wf d = (case d of Some (JArr us) \<Rightarrow> list_all user_json_wf us | _ \<Rightarrow> False)"

definition is_array :: "js_value \<Rightarrow> bool" where
  "is_array d = (case d of Some (JArr _) \<Rightarrow> True | _ \<Rightarrow> False)"

lemma encode_user_props [simp]:
  "get_prop (Some (encode_user u)) ''name'' = Inr (Some (JStr (name u)))"
  "get_prop (Some (encode_user u)) ''username'' = Inr (Some (JStr (username u)))"
  "read_path (encode_user u) ''address'' ''city'' = Inr (Some (JStr (user_city u)))"
  "read_path (encode_user u) ''company'' ''name'' = Inr (Some (JStr (user_company u)))"
  by (simp_all add: encode_user_def read_path_def user_city_def user_company_def)

lemma matches_json_encode_user:
  "matches_search_json q (encode_user u) = Inr (matches_search q u)"
  "matches_city_json c (encode_user u) = Inr (matches_city c u)"
  "matches_company_json co (encode_user u) = Inr (matches_company co u)"
  by (simp_all add: matches_search_json_def to_lower_call_def matches_search_def
      matches_city_json_def matches_city_def matches_company_json_def matches_company_def)

lemma foldl_js_set_add_str:
  "foldl js_set_add (map (\<lambda>x. Some (JStr x)) acc) (map (\<lambda>x. Some (JStr x)) xs)
   = map (\<lambda>x. Some (JStr x)) (foldl set_add acc xs)"
proof (induction xs arbitrary: acc)
  case Nil
  then show ?case by simp
next
  case (Cons x xs)
  have "js_set_add (map (\<lambda>x. Some (JStr x)) acc) (Some (JStr x)) = map (\<lambda>x. Some (JStr x)) (set_add acc x)"
    by (induction acc) (auto simp: js_set_add_def set_add_def list_ex_iff)
  then show ?case by (simp add: Cons.IH)
qed

lemma js_set_from_list_str:
  "js_set_from_list (map (\<lambda>x. Some (JStr x)) xs) = map (\<lambda>x. Some (JStr x)) (set_from_list xs)"
  using foldl_js_set_add_str [of "[]" xs] by (simp add: js_set_from_list_def set_from_list_def)

lemma user_json_wf_reads:
  assumes "user_json_wf u"
  shows "\<exists>v. read_path u ''address'' ''city'' = Inr v" "\<exists>v. read_path u ''company'' ''name'' = Inr v"
    and "\<exists>b. matches_search_json q u = Inr b" "\<exists>b. matches_city_json c u = Inr b"
    and "\<exists>b. matches_company_json co u = Inr b"
proof -
  from assms obtain a k n un where
    props: "get_prop (Some u) ''address'' = Inr (Some (JObj a))" "get_prop (Some u) ''company'' = Inr (Some (JObj k))"
      "get_prop (Some u) ''name'' = Inr (Some (JStr n))" "get_prop (Some u) ''username'' = Inr (Some (JStr un))"
    unfolding user_json_wf_def
    by (auto elim!: is_object.elims is_string.elims)
  then show "\<exists>v. read_path u ''address'' ''city'' = Inr v" "\<exists>v. read_path u ''company'' ''name'' = Inr v"
    and "\<exists>b. matches_search_json q u = Inr b" "\<exists>b. matches_city_json c u = Inr b"
    and "\<exists>b. matches_company_json co u = Inr b"
    by (auto simp: read_path_def matches_search_json_def to_lower_call_def matches_city_json_def
        matches_company_json_def)
qed

lemma get_prop_Inr_other: "get_prop v p = Inr w \<Longrightarrow> \<exists>w'. get_prop v p' = Inr w'"
  by (cases "(v, p)" rule: get_prop.cases) auto

lemma read_path_Inr_other:
  assumes "read_path u a b = Inr w"
  shows "\<exists>w'. read_path u a b' = Inr w'" and "\<exists>w'. get_prop (Some u) p = Inr w'"
proof -
  from assms obtain v where v: "get_prop (Some u) a = Inr v" and "\<exists>w. get_prop v b = Inr w"
    by (auto simp: read_path_def bindE_def split: sum.splits)
  then show "\<exists>w'. read_path u a b' = Inr w'"
    using get_prop_Inr_other by (fastforce simp: read_path_def)
  show "\<exists>w'. get_prop (Some u) p = Inr w'" using v by (rule get_prop_Inr_other)
qed

lemma cities_json_encode:
  "cities_json (Some (JArr (map encode_user us))) = Inr (map (\<lambda>x. Some (JStr x)) (cities us))"
  by (simp add: cities_json_def array_elems_def mapE_map_Inr [where g = "\<lambda>u. Some (JStr (user_city u))"]
      js_set_from_list_str [symmetric] cities_def comp_def)

lemma companies_json_encode:
  "companies_json (Some (JArr (map encode_user us))) = Inr (map (\<lambda>x. Some (JStr x)) (companies us))"
  by (simp add: companies_json_def array_elems_def mapE_map_Inr [where g = "\<lambda>u. Some (JStr (user_company u))"]
      js_set_from_list_str [symmetric] companies_def comp_def)

lemma filtered_json_encode:
  "filtered_json q c co (Some (JArr (map encode_user us))) = Inr (map encode_user (filter_pipeline q c co us))"
  by (simp add: filtered_json_def array_elems_def filter_pipeline_def filterE_map_Inr matches_json_encode_user)

lemmas app_data_json_encode_simps = cities_json_encode companies_json_encode filtered_json_encode

text \<open>C16: On a body of the fixture's shape (an array of encoded records), the render's
  evaluation of lines 31--40 over raw JSON computes exactly the record model: the city and
  company options of \<open>cities\<close> and \<open>companies\<close>, and the records of
  \<open>filter_pipeline\<close>.\<close>

theorem app_data_json_refines:
  "app_data_json q c co (Some (JArr (map encode_user us)))
   = Inr \<lparr>city_vals = map (\<lambda>x. Some (JStr x)) (cities us),
          company_vals = map (\<lambda>x. Some (JStr x)) (companies us),
          shown = map encode_user (filter_pipeline q c co us)\<rparr>"
  by (simp add: app_data_json_def app_data_json_encode_simps)

lemma user_json_wf_encode [simp]: "user_json_wf (encode_user u)"
  by (simp add: user_json_wf_def encode_user_def)

lemma app_data_json_wf:
  assumes "users_json_wf d"
  shows "\<exists>v. app_data_json q c co d = Inr v"
proof -
  from assms obtain us where d: "d = Some (JArr us)" and wf: "\<forall>u \<in> set us. user_json_wf u"
    by (auto simp: users_json_wf_def list_all_iff split: option.splits json.splits)
  have rd: "\<exists>v. read_path u ''address'' ''city'' = Inr v" "\<exists>v. read_path u ''company'' ''name'' = Inr v"
    and pr: "\<exists>b. matches_search_json q u = Inr b" "\<exists>b. matches_city_json c u = Inr b"
      "\<exists>b. matches_company_json co u = Inr b" if "u \<in> set us" for u
    using user_json_wf_reads wf that by blast+
  obtain cs where cs: "mapE (\<lambda>u. read_path u ''address'' ''city'') us = Inr cs"
    using mapE_Inr_ex [of us "\<lambda>u. read_path u ''address'' ''city''"] rd(1) by blast
  obtain cos where cos: "mapE (\<lambda>u. read_path u ''company'' ''name'') us = Inr cos"
    using mapE_Inr_ex [of us "\<lambda>u. read_path u ''company'' ''name''"] rd(2) by blast
  obtain a where a: "filterE (matches_search_json q) us = Inr a"
    using filterE_Inr_ex [of us "matches_search_json q"] pr(1) by blast
  obtain b where b: "filterE (matches_city_json c) a = Inr b"
    using filterE_Inr_ex [of a "matches_city_json c"] pr(2) filterE_Inr_set [OF a] by blast
  obtain e where e: "filterE (matches_company_json co) b = Inr e"
    using filterE_Inr_ex [of b "matches_company_json co"] pr(3) filterE_Inr_set [OF a] filterE_Inr_set [OF b] by blast
  show ?thesis
    by (simp add: app_data_json_def cities_json_def companies_json_def filtered_json_def
        array_elems_def d cs cos a b e)
qed

text \<open>C17: A body that is not an array (an object wrapping the list, \<open>null\<close>, a
  string) makes every render throw at \<open>users.map\<close> of line 31.\<close>

theorem app_data_json_not_array:
  assumes "\<not> is_array d"
  shows "app_data_json q c co d = Inl (TypeError ''map'')"
  using assms
  by (simp add: is_array_def app_data_json_def cities_json_def array_elems_def
      split: option.splits json.splits)

theorem app_data_json_not_array_witness:
  "\<not> is_array (Some (JObj [(''users'', JArr [])]))
   \<and> app_data_json [] [] [] (Some (JObj [(''users'', JArr [])])) = Inl (TypeError ''map'')"
proof -
  have h: "\<not> is_array (Some (JObj [(''users'', JArr [])]))" by (simp add: is_array_def)
  show ?thesis using h app_data_json_not_array [OF h] by blast
qed

text \<open>C18: One record without an \<open>address\<close> makes every render throw, whatever the
  search and the filters: the records are not skipped, the page fails.\<close>

theorem missing_address_throws:
  assumes "d = Some (JArr us)" and "u \<in> set us" and "get_prop (Some u) ''address'' = Inr None"
  shows "\<exists>e. app_data_json q c co d = Inl e"
proof -
  have "read_path u ''address'' ''city'' = Inl (TypeError ''city'')"
    using assms(3) by (simp add: read_path_def)
  then obtain e where "mapE (\<lambda>u. read_path u ''address'' ''city'') us = Inl e"
    using mapE_Inl_ex [OF assms(2), of "\<lambda>u. read_path u ''address'' ''city''"] by blast
  then show ?thesis
    by (simp add: assms(1) app_data_json_def cities_json_def array_elems_def)
qed

theorem missing_address_throws_witness:
  "Some (JArr [JObj [(''name'', JStr ''Ann'')]]) = Some (JArr [JObj [(''name'', JStr ''Ann'')]])
   \<and> JObj [(''name'', JStr ''Ann'')] \<in> set [JObj [(''name'', JStr ''Ann'')]]
   \<and> get_prop (Some (JObj [(''name'', JStr ''Ann'')])) ''address'' = Inr None
   \<and> (\<exists>e. app_data_json ''Ann'' [] [] (Some (JArr [JObj [(''name'', JStr ''Ann'')]])) = Inl e)"
proof -
  have h: "Some (JArr [JObj [(''name'', JStr ''Ann'')]]) = Some (JArr [JObj [(''name'', JStr ''Ann'')]])"
    "JObj [(''name'', JStr ''Ann'')] \<in> set [JObj [(''name'', JStr ''Ann'')]]"
    "get_prop (Some (JObj [(''name'', JStr ''Ann'')])) ''address'' = Inr None"
    by simp_all
  show ?thesis using h missing_address_throws [OF h] by blast
qed


end
