(* ===== verification/Page.thy ===== *)
theory Page
  imports Runtime Json
begin

text \<open>
  The page of src/src/app.jsx as it runs on whatever the server sends.  The \<open>App\<close>
  state holds the value \<open>res.json()\<close> returned (\<open>raw_app\<close>, with \<open>raw_users\<close> a
  \<open>js_value\<close>): the data callback of lines 19--22 stores it unchecked.  Every render
  evaluates lines 31--40 on it (\<open>app_data_json\<close> of \<open>Json\<close>) before it builds the
  element tree, so a render can throw; \<open>App\<close> has no error boundary, and React then
  unmounts the whole root (\<open>page_commit\<close> clears \<open>mounted\<close>).  After that the
  header and the cards are gone: no input event reaches the page, and a callback of the
  pending fetch only calls \<open>setState\<close> of an unmounted component, which React ignores.
  \<open>card_json\<close> is what a \<open>UserCard\<close> (src/src/components/UserCard.jsx) reads of
  its \<open>user\<close> prop, the details block included when \<open>showMore\<close> is set.

  \<open>raw_of\<close> encodes a typed \<open>App\<close> state of \<open>Directory\<close> as the state the code
  holds when the server sends the fixture's JSON, and \<open>encode_outcome\<close> and
  \<open>encode_event\<close> encode the fetch outcome and the events likewise; the lemmas show that
  the page then runs exactly as the typed runtime of \<open>Runtime\<close> and is never
  unmounted, that an unmounted page stays unmounted, that a body which is not an array
  unmounts it, and that the cards' reads never throw once lines 31--40 have not.
  \<open>page_run_invariant\<close> lifts an invariant of single steps to runs whose events
  satisfy a condition; with the condition \<open>event_wf\<close> (every delivered body is
  well-formed, \<open>outcome_wf\<close>) it shows that such a page is never unmounted.
\<close>

record raw_app =
  raw_users :: js_value
  raw_loading :: bool
  raw_error :: "js_string option"
  raw_search :: js_string
  raw_cityFilter :: js_string
  raw_companyFilter :: js_string
  raw_darkMode :: bool

datatype parse_result = Parsed json | ParseFailed js_string

record raw_response =
  raw_ok :: bool
  raw_body :: parse_result

datatype raw_outcome = RawResolved raw_response | RawRejected js_string

datatype page_event = PRunEffect | PSettle raw_outcome | PInput app_event | PCardClick user_id

record page =
  pstate :: raw_app
  p_effect_ran :: bool
  p_pending :: bool
  mounted :: bool

definition raw_init :: raw_app where
  "raw_init =
     \<lparr>raw_users = Some (JArr []), raw_loading = True, raw_error = None, raw_search = [],
      raw_cityFilter = [], raw_companyFilter = [], raw_darkMode = False\<rparr>"

definition raw_fetch_chain :: "raw_outcome \<Rightarrow> js_string + json" where
  "raw_fetch_chain r =
     (case r of
        RawRejected m \<Rightarrow> Inl m
      | RawResolved res \<Rightarrow>
          (if \<not> raw_ok res then Inl ''Failed to fetch''
           else (case raw_body res of ParseFailed m \<Rightarrow> Inl m | Parsed d \<Rightarrow> Inr d)))"

definition raw_on_data :: "json \<Rightarrow> raw_app \<Rightarrow> raw_app" where
  "raw_on_data d s = s\<lparr>raw_users := Some d, raw_loading := False\<rparr>"

definition raw_on_error :: "js_string \<Rightarrow> raw_app \<Rightarrow> raw_app" where
  "raw_on_error m s = s\<lparr>raw_error := Some m, raw_loading := False\<rparr>"

definition raw_settle :: "raw_outcome \<Rightarrow> raw_app \<Rightarrow> raw_app" where
  "raw_settle r s = (case raw_fetch_chain r of Inl m \<Rightarrow> raw_on_error m s | Inr d \<Rightarrow> raw_on_data d s)"

fun raw_handle :: "app_event \<Rightarrow> raw_app \<Rightarrow> raw_app" where
  "raw_handle (SearchInput v) s = s\<lparr>raw_search := v\<rparr>"
| "raw_handle (CitySelect v) s = s\<lparr>raw_cityFilter := v\<rparr>"
| "raw_handle (CompanySelect v) s = s\<lparr>raw_companyFilter := v\<rparr>"
| "raw_handle DarkModeClick s = s\<lparr>raw_darkMode := \<not> raw_darkMode s\<rparr>"

definition render_raw :: "raw_app \<Rightarrow> js_error + data_view" where
  "render_raw s = app_data_json (raw_search s) (raw_cityFilter s) (raw_companyFilter s) (raw_users s)"

definition card_json :: "json \<Rightarrow> bool \<Rightarrow> js_error + js_value list" where
  "card_json u sm =
     mapE id
       ([get_prop (Some u) ''name'', get_prop (Some u) ''username'', get_prop (Some u) ''email'',
         read_path u ''company'' ''name'', read_path u ''address'' ''city'']
        @ (if sm then [get_prop (Some u) ''phone'', get_prop (Some u) ''website'',
                       read_path u ''address'' ''street'', read_path u ''address'' ''zipcode'']
           else []))"

definition page_init :: page where
  "page_init = \<lparr>pstate = raw_init, p_effect_ran = False, p_pending = False, mounted = True\<rparr>"

definition page_commit :: "raw_app \<Rightarrow> page \<Rightarrow> page" where
  "page_commit s p = (case render_raw s of Inl e \<Rightarrow> p\<lparr>pstate := s, mounted := False\<rparr> | Inr v \<Rightarrow> p\<lparr>pstate := s\<rparr>)"

fun page_exec :: "page \<Rightarrow> page_event \<Rightarrow> page option" where
  "page_exec p PRunEffect =
     (if mounted p \<and> \<not> p_effect_ran p then Some (p\<lparr>p_effect_ran := True, p_pending := True\<rparr>) else None)"
| "page_exec p (PSettle x) =
     (if \<not> p_pending p then None
      else if mounted p then Some (page_commit (raw_settle x (pstate p)) (p\<lparr>p_pending := False\<rparr>))
      else Some (p\<lparr>p_pending := False\<rparr>))"
| "page_exec p (PInput e) = (if mounted p then Some (page_commit (raw_handle e (pstate p)) p) else None)"
| "page_exec p (PCardClick k) = (if mounted p then Some p else None)"

fun page_run :: "page \<Rightarrow> page_event list \<Rightarrow> page option" where
  "page_run p [] = Some p"
| "page_run p (e # es) = (case page_exec p e of None \<Rightarrow> None | Some p' \<Rightarrow> page_run p' es)"

definition raw_of :: "app_state \<Rightarrow> raw_app" where
  "raw_of s =
     \<lparr>raw_users = Some (JArr (map encode_user (users s))), raw_loading = loading s, raw_error = error s,
      raw_search = search s, raw_cityFilter = cityFilter s, raw_companyFilter = companyFilter s,
      raw_darkMode = darkMode s\<rparr>"

definition encode_outcome :: "fetch_outcome \<Rightarrow> raw_outcome" where
  "encode_outcome x =
     (case x of
        Rejected m \<Rightarrow> RawRejected m
      | Resolved res \<Rightarrow>
          RawResolved \<lparr>raw_ok = ok res,
                       raw_body = (case body res of JsonUsers d \<Rightarrow> Parsed (JArr (map encode_user d))
                                   | JsonInvalid m \<Rightarrow> ParseFailed m)\<rparr>)"

fun encode_event :: "rt_event \<Rightarrow> page_event" where
  "encode_event RunEffect = PRunEffect"
| "encode_event (Settle x) = PSettle (encode_outcome x)"
| "encode_event (Input e) = PInput e"
| "encode_event (CardClick k) = PCardClick k"

definition page_of :: "runtime \<Rightarrow> page" where
  "page_of r = \<lparr>pstate = raw_of (app r), p_effect_ran = effect_ran r, p_pending = pending r, mounted = True\<rparr>"

definition outcome_wf :: "raw_outcome \<Rightarrow> bool" where
  "outcome_wf x = (case raw_fetch_chain x of Inr j \<Rightarrow> users_json_wf (Some j) | Inl m \<Rightarrow> True)"

fun event_wf :: "page_event \<Rightarrow> bool" where
  "event_wf (PSettle x) = outcome_wf x"
| "event_wf e = True"

lemma raw_settle_of: "raw_settle (encode_outcome x) (raw_of s) = raw_of (settle_fetch x s)"
  by (simp add: raw_settle_def raw_fetch_chain_def encode_outcome_def settle_fetch_def fetch_chain_def
      raw_on_data_def raw_on_error_def on_data_def on_error_def raw_of_def
      split: fetch_outcome.split json_body.split)

lemma raw_handle_of: "raw_handle e (raw_of s) = raw_of (app_handle e s)"
  by (cases e) (simp_all add: raw_of_def)

lemma render_raw_of: "render_raw (raw_of s) =
   Inr \<lparr>city_vals = map (\<lambda>x. Some (JStr x)) (cities (users s)),
        company_vals = map (\<lambda>x. Some (JStr x)) (companies (users s)),
        shown = map encode_user (filtered_users s)\<rparr>"
  by (simp add: render_raw_def raw_of_def app_data_json_def app_data_json_encode_simps filtered_users_def)

lemma page_commit_of: "page_commit (raw_of s) p = p\<lparr>pstate := raw_of s\<rparr>"
  by (simp add: page_commit_def render_raw_of)

lemma page_exec_of: "rt_exec r e = Some r' \<Longrightarrow> page_exec (page_of r) (encode_event e) = Some (page_of r')"
  by (cases e) (auto simp: page_of_def raw_settle_of raw_handle_of page_commit_of commit_def
      split: if_splits option.splits)

lemma page_run_of: "rt_run r es = Some r' \<Longrightarrow> page_run (page_of r) (map encode_event es) = Some (page_of r')"
  by (induction es arbitrary: r) (auto simp: page_exec_of split: option.splits)

lemma page_of_init: "page_of rt_init = page_init"
  by (simp add: page_of_def rt_init_def page_init_def raw_of_def raw_init_def app_init_def)

lemma page_exec_unmounted:
  "page_exec p e = Some p' \<Longrightarrow> \<not> mounted p \<Longrightarrow> \<not> mounted p' \<and> pstate p' = pstate p"
  by (cases e) (auto split: if_splits)

lemma page_run_invariant:
  assumes step: "\<And>p e p'. page_exec p e = Some p' \<Longrightarrow> Q p \<Longrightarrow> P e \<Longrightarrow> Q p'"
  shows "page_run p es = Some p' \<Longrightarrow> Q p \<Longrightarrow> \<forall>e \<in> set es. P e \<Longrightarrow> Q p'"
proof (induction es arbitrary: p)
  case Nil
  then show ?case by simp
next
  case (Cons e es)
  then obtain p1 where p1: "page_exec p e = Some p1" and rest: "page_run p1 es = Some p'"
    by (auto split: option.splits)
  from step [OF p1 Cons.prems(2)] Cons.prems(3) have "Q p1" by simp
  with Cons.IH [OF rest] Cons.prems(3) show ?case by simp
qed

lemma raw_users_handle [simp]: "raw_users (raw_handle e s) = raw_users s"
  by (cases e) simp_all

lemma page_commit_wf:
  "users_json_wf (raw_users s) \<Longrightarrow> page_commit s p = p\<lparr>pstate := s\<rparr>"
  using app_data_json_wf [of "raw_users s" "raw_search s" "raw_cityFilter s" "raw_companyFilter s"]
  by (auto simp: page_commit_def render_raw_def)

lemma raw_settle_wf:
  "outcome_wf x \<Longrightarrow> users_json_wf (raw_users s) \<Longrightarrow> users_json_wf (raw_users (raw_settle x s))"
  by (simp add: outcome_wf_def raw_settle_def raw_on_data_def raw_on_error_def split: sum.splits)

lemma page_exec_wf:
  assumes "page_exec p e = Some p'" and "mounted p \<and> users_json_wf (raw_users (pstate p))" and "event_wf e"
  shows "mounted p' \<and> users_json_wf (raw_users (pstate p'))"
  using assms by (cases e) (auto simp: page_commit_wf raw_settle_wf split: if_splits)

text \<open>C20: When the server sends the fixture's JSON, the page running on the raw body
  follows the typed runtime step for step: every run of the typed page from the initial
  state is matched by the run of the raw page on the encoded events, which ends in the
  encoding of the same state, still mounted.\<close>

theorem page_refines_runtime:
  assumes "rt_run rt_init es = Some r"
  shows "page_run page_init (map encode_event es) = Some (page_of r)"
  using page_run_of [OF assms] by (simp add: page_of_init)


text \<open>C11: A 2xx response whose JSON is not an array is stored as a successful load; the
  render that follows throws at \<open>users.map\<close> and React unmounts the whole page.\<close>

theorem non_array_body_unmounts:
  assumes "\<not> is_array (Some j)"
  shows "page_run page_init [PRunEffect, PSettle (RawResolved \<lparr>raw_ok = True, raw_body = Parsed j\<rparr>)]
         = Some \<lparr>pstate = raw_init\<lparr>raw_users := Some j, raw_loading := False\<rparr>,
                 p_effect_ran = True, p_pending = False, mounted = False\<rparr>"
proof -
  have "render_raw (raw_init\<lparr>raw_users := Some j, raw_loading := False\<rparr>) = Inl (TypeError ''map'')"
    using assms by (cases j) (simp_all add: is_array_def render_raw_def raw_init_def app_data_json_def
        cities_json_def array_elems_def)
  then show ?thesis
    by (simp add: page_init_def raw_settle_def raw_fetch_chain_def raw_on_data_def page_commit_def)
qed

text \<open>C22: A card never throws on its own: once lines 31--40 have rendered, every property
  a \<open>UserCard\<close> reads of a shown record, with its details shown or not, reads without
  an exception.\<close>

theorem card_reads_safe:
  assumes "app_data_json q c co d = Inr v" and "u \<in> set (shown v)"
  shows "\<exists>vs. card_json u sm = Inr vs"
proof -
  from assms(1) obtain us cs cos fs where us: "array_elems d ''map'' = Inr us"
    and cs: "mapE (\<lambda>u. read_path u ''address'' ''city'') us = Inr cs"
    and cos: "mapE (\<lambda>u. read_path u ''company'' ''name'') us = Inr cos"
    and fs: "filtered_json q c co d = Inr fs" and v: "shown v = fs"
    by (auto simp: app_data_json_def cities_json_def companies_json_def bindE_def split: sum.splits)
  from fs us obtain a b where "filterE (matches_search_json q) us = Inr a"
    "filterE (matches_city_json c) a = Inr b" "filterE (matches_company_json co) b = Inr fs"
    by (auto simp: filtered_json_def array_elems_def bindE_def split: sum.splits option.splits json.splits)
  then have "set fs \<subseteq> set us" by (auto dest!: filterE_Inr_set)
  with assms(2) v have u: "u \<in> set us" by auto
  obtain w1 where w1: "read_path u ''address'' ''city'' = Inr w1" using mapE_Inr_all [OF cs u] by auto
  obtain w2 where w2: "read_path u ''company'' ''name'' = Inr w2" using mapE_Inr_all [OF cos u] by auto
  have reads: "\<exists>w. get_prop (Some u) p = Inr w" "\<exists>w. read_path u ''address'' b' = Inr w"
    "\<exists>w. read_path u ''company'' b'' = Inr w" for p b' b''
    using read_path_Inr_other [OF w1] read_path_Inr_other [OF w2] by blast+
  show ?thesis
    unfolding card_json_def
    by (rule mapE_Inr_ex) (use reads in auto)
qed


theorem page_refines_runtime_witness:
  "rt_run rt_init [RunEffect, Settle (Resolved \<lparr>ok = True, body = JsonUsers demo_users\<rparr>)] = Some demo_loaded
   \<and> page_run page_init (map encode_event [RunEffect, Settle (Resolved \<lparr>ok = True, body = JsonUsers demo_users\<rparr>)])
       = Some (page_of demo_loaded)"
proof -
  have h: "rt_run rt_init [RunEffect, Settle (Resolved \<lparr>ok = True, body = JsonUsers demo_users\<rparr>)] = Some demo_loaded"
    by (simp add: demo_loaded_def demo_settled_def demo_fetching_def rt_init_def)
  show ?thesis using h page_refines_runtime [OF h] by blast
qed


theorem non_array_body_unmounts_witness:
  "\<not> is_array (Some (JObj [(''users'', JArr [])]))
   \<and> page_run page_init [PRunEffect, PSettle (RawResolved \<lparr>raw_ok = True, raw_body = Parsed (JObj [(''users'', JArr [])])\<rparr>)]
     = Some \<lparr>pstate = raw_init\<lparr>raw_users := Some (JObj [(''users'', JArr [])]), raw_loading := False\<rparr>,
             p_effect_ran = True, p_pending = False, mounted = False\<rparr>"
proof -
  have h: "\<not> is_array (Some (JObj [(''users'', JArr [])]))" by (simp add: is_array_def)
  show ?thesis using h non_array_body_unmounts [OF h] by blast
qed

theorem card_reads_safe_witness:
  "app_data_json [] [] [] (Some (JArr (map encode_user [mk_user 1 ''Leanne Graham'' ''Bret'' ''Gwenborough'' ''Romaguera''])))
     = Inr \<lparr>city_vals = [Some (JStr ''Gwenborough'')], company_vals = [Some (JStr ''Romaguera'')],
            shown = [encode_user (mk_user 1 ''Leanne Graham'' ''Bret'' ''Gwenborough'' ''Romaguera'')]\<rparr>
   \<and> encode_user (mk_user 1 ''Leanne Graham'' ''Bret'' ''Gwenborough'' ''Romaguera'')
       \<in> set (shown \<lparr>city_vals = [Some (JStr ''Gwenborough'')], company_vals = [Some (JStr ''Romaguera'')],
            shown = [encode_user (mk_user 1 ''Leanne Graham'' ''Bret'' ''Gwenborough'' ''Romaguera'')]\<rparr>)
   \<and> (\<exists>vs. card_json (encode_user (mk_user 1 ''Leanne Graham'' ''Bret'' ''Gwenborough'' ''Romaguera'')) True = Inr vs)"
proof -
  have h1: "app_data_json [] [] [] (Some (JArr (map encode_user [mk_user 1 ''Leanne Graham'' ''Bret'' ''Gwenborough'' ''Romaguera''])))
     = Inr \<lparr>city_vals = [Some (JStr ''Gwenborough'')], company_vals = [Some (JStr ''Romaguera'')],
            shown = [encode_user (mk_user 1 ''Leanne Graham'' ''Bret'' ''Gwenborough'' ''Romaguera'')]\<rparr>"
    unfolding app_data_json_def app_data_json_encode_simps
    by (simp add: cities_def companies_def set_from_list_def set_add_def filter_pipeline_filter
        user_matches_def mk_user_def user_city_def user_company_def to_lower_def)
  have h2: "encode_user (mk_user 1 ''Leanne Graham'' ''Bret'' ''Gwenborough'' ''Romaguera'')
       \<in> set (shown \<lparr>city_vals = [Some (JStr ''Gwenborough'')], company_vals = [Some (JStr ''Romaguera'')],
            shown = [encode_user (mk_user 1 ''Leanne Graham'' ''Bret'' ''Gwenborough'' ''Romaguera'')]\<rparr>)"
    by simp
  show ?thesis using h1 h2 card_reads_safe [OF h1 h2, of True] by blast
qed



end
