(* ===== verification/Scheduler.thy ===== *)
theory Scheduler
  imports Runtime
begin

text \<open>
  React's loop around the mount effect of src/src/app.jsx lines 13--28.  After every
  commit React runs each effect whose dependencies call for it: with the list \<open>[]\<close>
  of line 28 (\<open>app_effect_deps\<close>) only after the first commit, without a list after
  every commit (\<open>effect_due\<close>).  The effect issues the fetch; the fetch settles
  (with an outcome \<open>x\<close> the server gives every time) and its callback commits a new
  state.  \<open>settle_loop\<close> runs this until no effect is due and no fetch is pending.  It
  is a \<open>partial_function (option)\<close>: the loop need not end, and not ending is
  \<open>None\<close>.  With the code's \<open>[]\<close> it ends from every reachable state, settled
  (\<open>settle_loop_terminates\<close>); without the list it never ends
  (\<open>settle_loop_every_commit_diverges\<close>): every settlement commits, the commit makes
  the effect due again, and the effect fetches again.
\<close>

datatype effect_deps = DepsOnMount | DepsEveryCommit

definition app_effect_deps :: effect_deps where
  "app_effect_deps = DepsOnMount"

fun effect_due :: "effect_deps \<Rightarrow> runtime \<Rightarrow> bool \<Rightarrow> bool" where
  "effect_due DepsOnMount r committed = (\<not> effect_ran r)"
| "effect_due DepsEveryCommit r committed = (\<not> effect_ran r \<or> committed)"

partial_function (option) settle_loop :: "effect_deps \<Rightarrow> fetch_outcome \<Rightarrow> runtime \<Rightarrow> bool \<Rightarrow> runtime option" where
  "settle_loop d x r committed =
     (if pending r then
        (case rt_exec r (Settle x) of None \<Rightarrow> None | Some r' \<Rightarrow> settle_loop d x r' True)
      else if effect_due d r committed then
        settle_loop d x (r\<lparr>effect_ran := True, pending := True\<rparr>) False
      else Some r)"

lemma settle_loop_settled:
  "\<not> pending r \<Longrightarrow> effect_ran r \<Longrightarrow> settle_loop DepsOnMount x r c = Some r"
  by (simp add: settle_loop.simps)

lemma settle_loop_pending:
  "pending r \<Longrightarrow> effect_ran r \<Longrightarrow>
   settle_loop DepsOnMount x r c = Some (commit (settle_fetch x (app r)) (r\<lparr>pending := False\<rparr>))"
  by (subst settle_loop.simps) (simp add: settle_loop_settled commit_def)

lemma settle_loop_every_commit_Some:
  assumes "settle_loop d x r c = Some y"
  shows "d = DepsEveryCommit \<longrightarrow> \<not> pending r \<and> \<not> c \<and> effect_ran r"
  by (rule settle_loop.raw_induct [where P = "\<lambda>d x r c y. d = DepsEveryCommit \<longrightarrow> \<not> pending r \<and> \<not> c \<and> effect_ran r"
      and xa = "(((d, x), r), c)", simplified, OF _ assms])
     (auto split: if_splits option.splits; fastforce)

lemma settle_loop_every_commit_diverges:
  "pending r \<or> c \<or> \<not> effect_ran r \<Longrightarrow> settle_loop DepsEveryCommit x r c = None"
  using settle_loop_every_commit_Some [of DepsEveryCommit x r c] by (cases "settle_loop DepsEveryCommit x r c") auto

text \<open>C23: With the dependency list \<open>[]\<close>, React's effect loop ends from every
  reachable state: the effect has run, no fetch is pending, and the LoadState has left
  Loading.\<close>

theorem settle_loop_terminates:
  assumes "reachable r"
  shows "\<exists>r'. settle_loop app_effect_deps x r c = Some r' \<and> effect_ran r' \<and> \<not> pending r'
              \<and> load_state (app r') \<noteq> Loading"
proof -
  have inv: "rt_inv r" using assms by (rule reachable_inv)
  have settled: "\<not> loading (settle_fetch x a)" for a
    by (simp add: settle_fetch_def on_data_def on_error_def split: sum.split)
  consider (pend) "pending r" | (ran) "\<not> pending r" "effect_ran r" | (fresh) "\<not> pending r" "\<not> effect_ran r"
    by blast
  then show ?thesis
  proof cases
    case pend
    with inv have "effect_ran r" by (simp add: rt_inv_def)
    with pend show ?thesis
      by (simp add: app_effect_deps_def settle_loop_pending settled load_state_def split: option.split)
  next
    case ran
    with inv have "\<not> loading (app r)" by (simp add: rt_inv_def)
    with ran show ?thesis
      by (simp add: app_effect_deps_def settle_loop_settled load_state_def split: option.split)
  next
    case fresh
    then have "settle_loop DepsOnMount x r c
        = settle_loop DepsOnMount x (r\<lparr>effect_ran := True, pending := True\<rparr>) False"
      by (subst settle_loop.simps) simp
    then show ?thesis
      by (simp add: app_effect_deps_def settle_loop_pending settled load_state_def split: option.split)
  qed
qed

theorem settle_loop_terminates_witness:
  "reachable rt_init
   \<and> (\<exists>r'. settle_loop app_effect_deps (Rejected ''offline'') rt_init False = Some r' \<and> effect_ran r'
            \<and> \<not> pending r' \<and> load_state (app r') \<noteq> Loading)"
proof -
  have h: "reachable rt_init" by (rule reachable.init)
  show ?thesis using h settle_loop_terminates [OF h, of "Rejected ''offline''" False] by blast
qed

end
