(* ===== verification/Spec2Isabelle.thy ===== *)
theory Spec2Isabelle
  imports Page Scheduler
begin

text \<open>
  \<^bold>\<open>A verification development of the user-profile directory.\<close>

  \<^emph>\<open>The program.\<close>  Two React components.  \<open>App\<close> (src/src/app.jsx) holds seven
  pieces of state (the loaded users, a loading flag, an error message, the search text,
  the selected city and company, the dark-mode flag); on mount its effect fetches the
  user list once and either stores it or stores the error's message, clearing the
  loading flag in both cases.  On every render it derives the distinct cities and
  companies of the loaded users (\<open>Array.from(new Set(...))\<close>) and filters the users by
  a case-insensitive substring search on name or username, then by city, then by
  company.  It renders a header of controls, then a loading text, an error text, or a
  grid of \<open>UserCard\<close> elements keyed by \<open>user.id\<close> (with a no-match text when the
  filtered list is empty).  \<open>UserCard\<close> (src/src/components/UserCard.jsx) renders
  one user's fields and owns one flag that shows or hides a detail block.

  \<^emph>\<open>The theories.\<close>
  \<^item> \<open>Prelude\<close>: string and identity types, JavaScript truthiness of strings and
    \<open>null\<close> (\<open>truthy\<close>, \<open>truthy_opt\<close>), the \<open>js_simps\<close>/\<open>view_simps\<close>
    collections, shared list lemmas.
  \<^item> \<open>JS_Builtins\<close>: \<open>toLowerCase\<close> (\<open>to_lower\<close>), \<open>includes\<close>
    (\<open>js_includes\<close>), \<open>Array.from(new Set(xs))\<close> (\<open>set_from_list\<close>), with
    \<open>js_includes\<close> proved equal to the contiguous-sublist relation and
    \<open>set_from_list\<close> to \<open>rev (remdups (rev xs))\<close>; \<open>js_includes\<close> is also
    proved equal to the ECMAScript search by position, and \<open>set_from_list\<close> to obey
    the insertion-order law on appended lists.
  \<^item> \<open>Users\<close>: the user, address and company records, as far as the sources read them.
  \<^item> \<open>UserCard\<close>: the card's state, its toggle handler and its rendered view; the
    card refines the spec's Collapsed/Expanded machine.
  \<^item> \<open>Directory\<close>: the \<open>App\<close> state, the fetch promise chain and its two callbacks
    (\<open>fetch_chain\<close>, \<open>on_data\<close>, \<open>on_error\<close>, \<open>settle_fetch\<close>), the derived
    lists (\<open>cities\<close>, \<open>companies\<close>), the filter pipeline (\<open>filter_pipeline\<close>,
    \<open>filtered_users\<close>), the header handlers (\<open>app_handle\<close>) and the render
    (\<open>render_app\<close>).  Its lemmas: the pipeline refines the single matching criterion
    \<open>user_matches\<close> of the spec, keeps order, is idempotent, only narrows when the
    query is refined, is the identity without criteria, is case-insensitive; the city and
    company options are the first occurrences, each city once, never more than the users,
    and a non-empty offered city always selects its users.  The two \<open>setState\<close>
    calls of each callback are also modelled in order (\<open>data_updates\<close>,
    \<open>error_updates\<close>, \<open>apply_updates\<close>): applied one at a time they end in the
    batched state, the data callback's intermediate render shows one section, and the
    error callback's intermediate render shows the loading and the error text together.
  \<^item> \<open>Runtime\<close>: the page as React runs it: the \<open>App\<close> state, the effect and
    its single pending fetch, and the keyed card states, with the step as a function
    (\<open>rt_exec\<close>) and as an inductive relation (\<open>rt_step\<close>), proved equal; the
    reachable states and their invariant \<open>rt_inv\<close>, one preservation lemma per event;
    the refinement of the spec's LoadState machine (\<open>load_state\<close>, \<open>load_step\<close>),
    terminality of Loaded and Failed, at most one fetch on any run, progress of the load,
    exactly one of loading/error/grid shown, the loading flag set exactly while the fetch
    is unsettled, no card on a failed load, distinct React keys for distinct ids, and
    per-card state that follows the record identity across re-filtering and is isolated
    between cards; two clicks on a card and two dark-mode toggles are round trips.
  \<^item> \<open>Json\<close>: the value \<open>res.json()\<close> returns as a JSON value (\<open>json\<close>, with
    \<open>None\<close> for \<open>undefined\<close>), and lines 31--40 of the render evaluated over it with
    JavaScript's semantics: a property read of \<open>undefined\<close>/\<open>null\<close>, \<open>map\<close> or
    \<open>filter\<close> on a non-array and \<open>toLowerCase\<close> on a non-string throw a
    \<open>TypeError\<close> (a value \<open>Inl\<close> of \<open>js_error + _\<close>, threaded by \<open>bindE\<close>,
    \<open>mapE\<close>, \<open>filterE\<close> of the prelude in the render's evaluation order), and the
    \<open>Set\<close> compares with SameValueZero.  Its lemmas: on the fixture's JSON shape
    (\<open>encode_user\<close>) the evaluation computes exactly the record model of
    \<open>Directory\<close>; on every well-formed body (\<open>users_json_wf\<close>) it never throws; a
    non-array body, or one record without \<open>address\<close>, makes every render throw; and
    with a non-string \<open>username\<close> whether it throws depends on the search text.
  \<^item> \<open>Page\<close>: the page of \<open>App\<close> on whatever the server sends: its state holds
    the parsed JSON (\<open>raw_app\<close>), the fetch chain and the handlers update it
    (\<open>raw_settle\<close>, \<open>raw_handle\<close>), each re-render evaluates lines 31--40
    (\<open>render_raw\<close>), and a render that throws unmounts the root (\<open>page_commit\<close>,
    \<open>page_exec\<close>, \<open>page_run\<close>), since \<open>App\<close> has no error boundary.  Its
    lemmas: on the fixture's JSON the page simulates the typed runtime of \<open>Runtime\<close>
    step for step and is never unmounted (the encoding \<open>page_of\<close>); an unmounted page
    stays unmounted and unchanged; a 2xx body that is not an array unmounts it; and the
    reads of a \<open>UserCard\<close> (\<open>card_json\<close>) never throw once lines 31--40 have
    rendered, so the render's only exceptions are those of \<open>Json\<close>; and a page whose
    server only sends well-formed bodies (\<open>event_wf\<close>) is never unmounted.
  \<^item> \<open>Scheduler\<close>: React's loop of running due effects and committing the fetch's
    settlement (\<open>settle_loop\<close>, a \<open>partial_function (option)\<close>), with the
    dependency list deciding when the effect is due (\<open>effect_due\<close>,
    \<open>app_effect_deps\<close>).  With the code's \<open>[]\<close> the loop ends from every reachable
    state; without a list it never ends.
  \<^item> \<open>Spec2Isabelle\<close> (this theory): the scenarios of the spec, run through the
    whole page: a successful load, an HTTP failure, a rejection with an empty message,
    a case-insensitive search, one card expanded among several, and filters that
    leave no record.

  \<^emph>\<open>Modelling choices.\<close>  Strings are lists of Isabelle characters, each read as one
  UTF-16 code unit below U+0100 (Latin-1); on these \<open>to_lower\<close> is exactly
  \<open>toLowerCase\<close> (A--Z and U+00C0--U+00DE except U+00D7 are lowered).
  The fetch, the HTTP status and the JSON parse are one outcome value
  (\<open>fetch_outcome\<close>): rejected with a message, or resolved with \<open>ok\<close> and a body
  that parses to a user list or fails with a message.  The two state updates of each
  callback are applied together, as React 18 batches them (\<open>settle_fetch\<close>); their
  unbatched order is modelled beside it (\<open>apply_updates\<close>).  The effect runs once
  (dependency list \<open>[]\<close>, production mode; React's development double invocation is
  not modelled).  The loops of the sources are \<open>filter\<close>/\<open>map\<close>/\<open>foldl\<close> over
  finite lists, modelled by structural recursion, so they need no fuel or measure; the
  one loop that may not end is React's effect loop around them, and it is a
  \<open>partial_function (option)\<close> whose return is proved (\<open>settle_loop_terminates\<close>).
  Card states are a map from user ids; with duplicate
  ids two cards would share one state, where React leaves the behaviour unspecified, so
  the spec's uniqueness of ids (\<open>ids_distinct\<close>) is where that matters.

  \<^emph>\<open>What the model showed.\<close>  The error text is guarded by JavaScript
  truthiness, so a failure with an empty message shows no error but the empty grid
  (\<open>scenario_empty_error_message\<close>); an HTTP error status is always reported as
  "Failed to fetch", without the status (\<open>scenario_http_failure\<close>); an empty city or
  company in the data gives an option with the value of the "All" sentinel
  (hence the hypothesis of \<open>city_option_selects\<close>); and unbatched rendering of the
  catch callback shows loading and error together (\<open>unbatched_error_shows_both\<close>).
  The stored body is not checked: a 2xx body that is not an array passes as a successful
  load and the next render throws (\<open>app_data_json_not_array\<close>), one record without
  \<open>address\<close> or \<open>company\<close> breaks the whole page where the spec expects the field to
  render as absent (\<open>missing_address_throws\<close>), and because \<open>||\<close> short-circuits a
  record with a non-string \<open>username\<close> breaks the page only once a search is typed that
  its name does not contain (\<open>crash_depends_on_search\<close>).  With no error boundary
  such a render exception unmounts the whole page for good
  (\<open>non_array_body_unmounts\<close>, \<open>unmounted_stays\<close>).  The dependency list \<open>[]\<close>
  is what stops the fetch from repeating: without it every settlement would commit, the
  commit would make the effect due, and the effect would fetch again
  (\<open>settle_loop_every_commit_diverges\<close>).

  \<^emph>\<open>Status of the development.\<close>  Modelled: the data model, both components,
  the built-ins on Latin-1 strings, the page runtime with its invariant, the LoadState
  refinement and two round trips, the spec's scenarios, the render over raw JSON bodies
  with its error paths, the page on raw bodies with unmounting on a render exception, its
  simulation of the typed runtime and its safety on well-formed bodies, and React's effect
  loop with its termination.  What is left is not modelled, for the reasons below.

  \<^emph>\<open>Not modelled.\<close>  CSS class names other than the root's dark class and the DOM and
  event plumbing of React: presentation only, and inputs are modelled by their handlers'
  arguments.  Network transport and the parse of the response text: browser library code
  that the sources only call; \<open>fetch_outcome\<close> and \<open>raw_outcome\<close> stand for their
  results.  Characters beyond U+00FF: \<open>toLowerCase\<close> on all of Unicode is a table of
  the Unicode Character Database (with context-dependent mappings such as the final sigma),
  not code of this repository, and an Isabelle \<open>char\<close> has 256 values.  React's
  behaviour with duplicate keys: React leaves it unspecified (it warns, and may duplicate or
  drop children), so there is nothing faithful to model; card states are a map from user
  ids, and the spec's uniqueness of ids (\<open>ids_distinct\<close>) is the hypothesis where it
  matters.  React's development double invocation of effects under \<open>StrictMode\<close>: the
  repository holds no entry point that would say whether \<open>App\<close> runs under it.  The card
  states of \<open>Runtime\<close> are not carried into \<open>Page\<close>: a card click there leaves the
  page state alone, which is exact because \<open>card_reads_safe\<close> shows that expanding a
  card cannot make a render throw.
\<close>

text \<open>C35: Scenario: a successful load shows every record, in order, as a collapsed card,
  and the city dropdown offers "All Cities" and the distinct cities.\<close>

theorem scenario_load_success:
  "case rt_run rt_init [RunEffect, Settle (Resolved \<lparr>ok = True, body = JsonUsers d\<rparr>)] of
     None \<Rightarrow> False
   | Some r \<Rightarrow> load_state (app r) = Loaded d
       \<and> snd (render_page r) = map (\<lambda>u. render_card u card_init) d
       \<and> city_options (header (render_app (app r)))
           = SelectOption [] ''All Cities'' # map (\<lambda>c. SelectOption c c) (cities d)"
proof -
  have fs: "filtered_users \<lparr>users = d, loading = False, error = None, search = [], cityFilter = [],
      companyFilter = [], darkMode = False\<rparr> = d"
    by (simp add: filtered_users_def filter_pipeline_filter)
  show ?thesis
    by (simp add: rt_init_def app_init_def settle_fetch_Inr fetch_chain_cases
        render_page_def render_app_def Let_def fs comp_def)
qed

text \<open>C36: Scenario: an HTTP error status leaves the page Failed with the message
  "Failed to fetch", shows the error text and renders no card.\<close>

theorem scenario_http_failure:
  "case rt_run rt_init [RunEffect, Settle (Resolved \<lparr>ok = False, body = b\<rparr>)] of
     None \<Rightarrow> False
   | Some r \<Rightarrow> load_state (app r) = Failed ''Failed to fetch''
       \<and> error_text (render_app (app r)) = Some ''Error: Failed to fetch ''
       \<and> main (render_app (app r)) = None \<and> snd (render_page r) = []"
  by (simp add: rt_init_def app_init_def commit_def settle_fetch_Inl fetch_chain_cases
      render_page_def view_simps)


text \<open>Scenario: after loading two records, the upper-case search "ANTON" finds the
  record whose username is "Antonette" and no other.\<close>

theorem scenario_search_case_insensitive:
  "case rt_run rt_init [RunEffect, Settle (Resolved \<lparr>ok = True, body = JsonUsers demo_users\<rparr>),
                         Input (SearchInput ''ANTON'')] of
     None \<Rightarrow> False
   | Some r \<Rightarrow> map title (snd (render_page r)) = [''Ervin Howell'']"
  by (simp add: rt_init_def app_init_def commit_def settle_fetch_Inr fetch_chain_cases
      render_page_def view_simps filtered_users_def filter_pipeline_def demo_users_def
      matches_search_def matches_city_def matches_company_def js_simps render_card_def)

text \<open>Scenario: after loading two records, clicking "View More" on the first card
  shows its details and leaves the second card collapsed.\<close>

theorem scenario_expand_one_card:
  "case rt_run rt_init [RunEffect, Settle (Resolved \<lparr>ok = True, body = JsonUsers demo_users\<rparr>),
                         CardClick 1] of
     None \<Rightarrow> False
   | Some r \<Rightarrow> map (\<lambda>v. details v \<noteq> None) (snd (render_page r)) = [True, False]"
  by (simp add: rt_init_def app_init_def commit_def settle_fetch_Inr fetch_chain_cases
      render_page_def view_simps filtered_users_def filter_pipeline_filter demo_users_def
      reconcile_def card_of_def rendered_keys_filtered)

text \<open>Scenario: after loading two records, selecting the city of one and the company
  of the other leaves no record, and the grid shows the no-match text.\<close>

theorem scenario_no_match:
  "case rt_run rt_init [RunEffect, Settle (Resolved \<lparr>ok = True, body = JsonUsers demo_users\<rparr>),
                         Input (CitySelect ''Gwenborough''), Input (CompanySelect ''Deckow-Crist'')] of
     None \<Rightarrow> False
   | Some r \<Rightarrow> filtered_users (app r) = [] \<and> main (render_app (app r)) = Some (MainView [] True)
       \<and> snd (render_page r) = []"
  by (simp add: rt_init_def app_init_def commit_def settle_fetch_Inr fetch_chain_cases
      render_page_cards view_simps filtered_users_def filter_pipeline_filter demo_users_def
      user_matches_def)

end
